theory Spec2Isabelle
  imports Complex_Main "HOL-Library.Word"
begin

section \<open>JavaScript values\<close>

text \<open>
  The middleware of \<^verbatim>\<open>lib/urlencoded.js\<close> reads untyped option values, so the model
  starts with the JavaScript values the code can be handed. A number is a double: not a
  number, an infinity, or a finite value. The code only tests numbers (\<^verbatim>\<open>isNaN\<close>,
  \<^verbatim>\<open><\<close>, \<^verbatim>\<open>isFinite\<close>, \<^verbatim>\<open>===\<close>) and truncates them (\<^verbatim>\<open>| 0\<close>); it
  never rounds, so a finite double is modelled by the rational it denotes (the two zeros
  are one value; they behave alike under these operations). A function value is opaque and
  carries an identifier; an object is a plain object, the list of its own properties.
  Arrays, symbols and big integers are left out.
\<close>

datatype jsnum = NaN | PosInfinity | NegInfinity | Finite rat

datatype jsval =
    JUndefined
  | JNull
  | JBool bool
  | JNum jsnum
  | JStr string
  | JFun nat
  | JObj "(string \<times> jsval) list"

text \<open>Truthiness, as used by \<^verbatim>\<open>||\<close>, \<^verbatim>\<open>!\<close> and \<^verbatim>\<open>if\<close>.\<close>

fun truthy :: "jsval \<Rightarrow> bool" where
  "truthy JUndefined = False"
| "truthy JNull = False"
| "truthy (JBool b) = b"
| "truthy (JNum n) = (n \<noteq> NaN \<and> n \<noteq> Finite 0)"
| "truthy (JStr s) = (s \<noteq> [])"
| "truthy (JFun f) = True"
| "truthy (JObj ps) = True"

text \<open>\<^verbatim>\<open>a || b\<close>\<close>

definition js_or :: "jsval \<Rightarrow> jsval \<Rightarrow> jsval" where
  "js_or a b = (if truthy a then a else b)"

text \<open>
  \<^verbatim>\<open>a || b\<close> where \<^verbatim>\<open>a\<close> is a string or \<^verbatim>\<open>undefined\<close> (here \<open>None\<close>) and
  \<^verbatim>\<open>b\<close> a string.
\<close>

fun string_or :: "string option \<Rightarrow> string \<Rightarrow> string" where
  "string_or None b = b"
| "string_or (Some a) b = (if a = [] then b else a)"

text \<open>\<^verbatim>\<open>typeof v === 'function'\<close> and \<^verbatim>\<open>typeof v === 'number'\<close>\<close>

fun is_function :: "jsval \<Rightarrow> bool" where
  "is_function (JFun f) = True"
| "is_function v = False"

fun is_number :: "jsval \<Rightarrow> bool" where
  "is_number (JNum n) = True"
| "is_number v = False"

text \<open>
  The conversion of a value to a number, as \<^verbatim>\<open>isNaN\<close>, \<^verbatim>\<open><\<close>, \<^verbatim>\<open>isFinite\<close>
  and \<^verbatim>\<open>|\<close> apply it to their operand. The conversion of a string is the engine's
  (the grammar of numeric literals, with rounding to a double) and is the parameter
  \<open>s2n\<close>. The conversion of an object or a function goes through its \<^verbatim>\<open>valueOf\<close> and
  \<^verbatim>\<open>toString\<close> methods, which are code of the caller: it is the parameter \<open>o2n\<close>,
  taken to be a function of the value (a method that throws, or that answers differently
  from one call to the next, is not modelled).
\<close>

fun ToNumber :: "(string \<Rightarrow> jsnum) \<Rightarrow> (jsval \<Rightarrow> jsnum) \<Rightarrow> jsval \<Rightarrow> jsnum" where
  "ToNumber s2n o2n JUndefined = NaN"
| "ToNumber s2n o2n JNull = Finite 0"
| "ToNumber s2n o2n (JBool b) = Finite (if b then 1 else 0)"
| "ToNumber s2n o2n (JNum n) = n"
| "ToNumber s2n o2n (JStr s) = s2n s"
| "ToNumber s2n o2n (JFun f) = o2n (JFun f)"
| "ToNumber s2n o2n (JObj ps) = o2n (JObj ps)"

text \<open>\<^verbatim>\<open>a < b\<close> on numbers: false as soon as one side is not a number.\<close>

fun num_less :: "jsnum \<Rightarrow> jsnum \<Rightarrow> bool" where
  "num_less NaN b = False"
| "num_less a NaN = False"
| "num_less PosInfinity b = False"
| "num_less NegInfinity b = (b \<noteq> NegInfinity)"
| "num_less (Finite x) PosInfinity = True"
| "num_less (Finite x) NegInfinity = False"
| "num_less (Finite x) (Finite y) = (x < y)"

fun num_isFinite :: "jsnum \<Rightarrow> bool" where
  "num_isFinite (Finite x) = True"
| "num_isFinite n = False"

text \<open>
  \<^verbatim>\<open>n | 0\<close> is the conversion to a signed 32-bit integer: the fraction is dropped
  (towards zero), the integer is taken modulo \<open>2 ^ 32\<close> and read in two's complement.
  What is not finite becomes 0.
\<close>

definition truncate_rat :: "rat \<Rightarrow> int" where
  "truncate_rat x = (if x < 0 then \<lceil>x\<rceil> else \<lfloor>x\<rfloor>)"

fun ToInt32 :: "jsnum \<Rightarrow> int" where
  "ToInt32 (Finite x) = sint (word_of_int (truncate_rat x) :: 32 word)"
| "ToInt32 n = 0"

section \<open>The parameter counter\<close>

text \<open>
  \<^verbatim>\<open>body.indexOf('&', index)\<close>: the position of the first separator at or after
  \<open>index\<close>, \<open>None\<close> for \<open>-1\<close>. The separator is an ASCII character, so its occurrences
  in the decoded string are its occurrences in the bytes, and a string is a list of
  characters.
\<close>

primrec first_index :: "char \<Rightarrow> string \<Rightarrow> nat option" where
  "first_index c [] = None"
| "first_index c (x # xs) = (if x = c then Some 0 else map_option Suc (first_index c xs))"

definition indexOf :: "string \<Rightarrow> char \<Rightarrow> nat \<Rightarrow> nat option" where
  "indexOf s c position =
     map_option (\<lambda>i. min position (length s) + i) (first_index c (drop position s))"

lemma first_index_less: "first_index c xs = Some i \<Longrightarrow> i < length xs"
  by (induction xs arbitrary: i) (auto split: if_splits)

lemma indexOf_bounds:
  assumes "indexOf s c p = Some i"
  shows "p \<le> i \<and> i < length s"
proof -
  from assms obtain j where j: "first_index c (drop p s) = Some j" and i: "i = min p (length s) + j"
    by (auto simp: indexOf_def)
  from first_index_less [OF j] have "j < length s - p" by simp
  with i show ?thesis by auto
qed

text \<open>
  The loop of \<^verbatim>\<open>parameterCount\<close>, with its two variables as arguments. The limit is the
  value the decoder holds after construction; \<^verbatim>\<open>count === limit\<close> holds only when the
  limit is the number \<open>count\<close>. \<open>None\<close> is the sentinel \<^verbatim>\<open>undefined\<close>.
\<close>

function parameterCount_loop :: "string \<Rightarrow> jsval \<Rightarrow> nat \<Rightarrow> nat \<Rightarrow> nat option" where
  "parameterCount_loop body limit count index =
     (case indexOf body CHR ''&'' index of
        None \<Rightarrow> Some count
      | Some i \<Rightarrow>
          if limit = JNum (Finite (of_nat (count + 1))) then None
          else parameterCount_loop body limit (count + 1) (i + 1))"
  by pat_completeness auto
termination
proof (relation "measure (\<lambda>(body, limit, count, index). length body - index)")
  show "wf (measure (\<lambda>(body, limit, count, index). length body - index))" by simp
next
  fix body :: string and limit :: jsval and count index i :: nat
  assume "indexOf body CHR ''&'' index = Some i"
  then have "index \<le> i \<and> i < length body" by (rule indexOf_bounds)
  then show "((body, limit, count + 1, i + 1), (body, limit, count, index))
      \<in> measure (\<lambda>(body, limit, count, index). length body - index)"
    by auto
qed

definition parameterCount :: "string \<Rightarrow> jsval \<Rightarrow> nat option" where
  "parameterCount body limit = parameterCount_loop body limit 0 0"

declare parameterCount_loop.simps [simp del]

section \<open>Errors, requests and the collaborators\<close>

text \<open>
  \<^verbatim>\<open>createError(status, message, props)\<close> of the http-errors package builds an error
  object with a status, a message and the given properties.
\<close>

record http_error =
  status :: nat
  message :: string
  error_type :: string
  error_charset :: "string option"

definition createError :: "nat \<Rightarrow> string \<Rightarrow> string option \<Rightarrow> string \<Rightarrow> http_error" where
  "createError st msg cs ty =
     \<lparr>status = st, message = msg, error_type = ty, error_charset = cs\<rparr>"

datatype js_exception = TypeError string

text \<open>
  The request, as far as the middleware touches it: the headers, \<^verbatim>\<open>req.body\<close> and the
  flag \<^verbatim>\<open>req._body\<close> that an earlier body parser sets.
\<close>

record request =
  req_headers :: "(string \<times> string) list"
  req_body :: jsval
  req_underscore_body :: jsval

text \<open>The result of \<^verbatim>\<open>contentType.parse\<close>.\<close>

record content_type =
  media_type :: string
  parameters :: "string \<rightharpoonup> string"

text \<open>The option objects handed to the collaborators.\<close>

record qs_options =
  allowPrototypes :: bool
  arrayLimit :: nat
  depth :: jsnum
  qs_parameterLimit :: jsval

record querystring_options =
  maxKeys :: jsval

record reader_options =
  encoding :: string
  reader_inflate :: bool
  reader_limit :: jsval
  reader_verify :: jsval

text \<open>
  Every call that leaves the module is an event, in the order of the calls: the
  deprecation notice, the classification of the request, the continuation \<^verbatim>\<open>next\<close>
  (with its error, if any), the reader, and the two key-value parsers with their
  arguments. Debug output is not modelled.
\<close>

datatype event =
    Deprecate string
  | ContentTypeParse
  | HasBody
  | ShouldParse
  | Next "http_error option"
  | ReaderCall reader_options
  | QsParse string qs_options
  | QuerystringParse string jsval jsval querystring_options

text \<open>
  The collaborators are outside the repository; what they compute is a parameter of the
  model. \<open>contentType_parse\<close> is \<open>None\<close> where the package throws (no header, or a
  header it cannot parse). \<open>acquire\<close> is the outcome of reading the stream under the
  reader's options: the decoded body, or the reader's error. \<open>call_function\<close> applies a
  function value of the configuration (a \<^verbatim>\<open>type\<close> predicate) to a request.
  \<open>StringToNumber\<close> and \<open>ObjectToNumber\<close> are the two conversions that \<open>ToNumber\<close>
  takes. \<open>toLowerCase\<close> and \<open>toUpperCase\<close> are the engine's case mappings of a string
  (\<^verbatim>\<open>String.prototype.toLowerCase\<close>, \<^verbatim>\<open>String.prototype.toUpperCase\<close>), which
  follow the Unicode tables and may change the length of the string; a character outside
  ASCII is held as its UTF-8 bytes, so what a mapping produces is a string of the model.
\<close>

record externals =
  StringToNumber :: "string \<Rightarrow> jsnum"
  ObjectToNumber :: "jsval \<Rightarrow> jsnum"
  toLowerCase :: "string \<Rightarrow> string"
  toUpperCase :: "string \<Rightarrow> string"
  bytes_parse :: "jsval \<Rightarrow> jsval"
  hasBody :: "request \<Rightarrow> bool"
  typeis :: "request \<Rightarrow> jsval \<Rightarrow> jsval"
  call_function :: "nat \<Rightarrow> request \<Rightarrow> jsval"
  contentType_parse :: "request \<Rightarrow> content_type option"
  acquire :: "request \<Rightarrow> reader_options \<Rightarrow> http_error + string"
  qs_parse :: "string \<Rightarrow> qs_options \<Rightarrow> jsval"
  querystring_parse :: "string \<Rightarrow> jsval \<Rightarrow> jsval \<Rightarrow> querystring_options \<Rightarrow> jsval"

section \<open>The two query decoders\<close>

definition too_many_parameters :: http_error where
  "too_many_parameters = createError 413 ''too many parameters'' None ''parameters.too.many''"

text \<open>
  The function \<^verbatim>\<open>queryparse\<close> that \<^verbatim>\<open>extendedparser\<close> returns, with the variable
  it closes over as an argument. A \<^verbatim>\<open>throw\<close> is the left summand.
\<close>

definition extended_queryparse ::
  "externals \<Rightarrow> jsval \<Rightarrow> string \<Rightarrow> (http_error + jsval) \<times> event list" where
  "extended_queryparse E parameterLimit body =
     (case parameterCount body parameterLimit of
        None \<Rightarrow> (Inl too_many_parameters, [])
      | Some paramCount \<Rightarrow>
          (let opts = \<lparr>allowPrototypes = True, arrayLimit = max 100 paramCount,
                       depth = PosInfinity, qs_parameterLimit = parameterLimit\<rparr>
           in (Inr (qs_parse E body opts), [QsParse body opts])))"

text \<open>The function \<^verbatim>\<open>queryparse\<close> that \<^verbatim>\<open>simpleparser\<close> returns.\<close>

definition simple_queryparse ::
  "externals \<Rightarrow> jsval \<Rightarrow> string \<Rightarrow> (http_error + jsval) \<times> event list" where
  "simple_queryparse E parameterLimit body =
     (case parameterCount body parameterLimit of
        None \<Rightarrow> (Inl too_many_parameters, [])
      | Some paramCount \<Rightarrow>
          (let opts = \<lparr>maxKeys = parameterLimit\<rparr>
           in (Inr (querystring_parse E body JUndefined JUndefined opts),
               [QuerystringParse body JUndefined JUndefined opts])))"

section \<open>Construction\<close>

text \<open>The options object; an option that is not given is \<^verbatim>\<open>undefined\<close>.\<close>

record options =
  extended :: jsval
  inflate :: jsval
  limit :: jsval
  parameterLimit :: jsval
  type :: jsval
  verify :: jsval

definition no_options :: options where
  "no_options = \<lparr>extended = JUndefined, inflate = JUndefined, limit = JUndefined,
     parameterLimit = JUndefined, type = JUndefined, verify = JUndefined\<rparr>"

text \<open>
  The validation and coercion of \<^verbatim>\<open>parameterLimit\<close>, the same lines in both
  \<^verbatim>\<open>extendedparser\<close> and \<^verbatim>\<open>simpleparser\<close>. Loading the parser module
  (\<^verbatim>\<open>parser(name)\<close>, with its cache) fixes which collaborator is called and has no other
  effect.
\<close>

definition extendedparser ::
  "externals \<Rightarrow> 'a options_scheme \<Rightarrow>
     js_exception + (string \<Rightarrow> (http_error + jsval) \<times> event list)" where
  "extendedparser E opts =
     (let given = (if parameterLimit opts \<noteq> JUndefined then parameterLimit opts
                   else JNum (Finite 1000));
          n = ToNumber (StringToNumber E) (ObjectToNumber E) given
      in if n = NaN \<or> num_less n (Finite 1)
         then Inl (TypeError ''option parameterLimit must be a positive number'')
         else Inr (extended_queryparse E
                (if num_isFinite n then JNum (Finite (of_int (ToInt32 n))) else given)))"

definition simpleparser ::
  "externals \<Rightarrow> 'a options_scheme \<Rightarrow>
     js_exception + (string \<Rightarrow> (http_error + jsval) \<times> event list)" where
  "simpleparser E opts =
     (let given = (if parameterLimit opts \<noteq> JUndefined then parameterLimit opts
                   else JNum (Finite 1000));
          n = ToNumber (StringToNumber E) (ObjectToNumber E) given
      in if n = NaN \<or> num_less n (Finite 1)
         then Inl (TypeError ''option parameterLimit must be a positive number'')
         else Inr (simple_queryparse E
                (if num_isFinite n then JNum (Finite (of_int (ToInt32 n))) else given)))"

text \<open>\<^verbatim>\<open>typeChecker(type)\<close>\<close>

definition typeChecker :: "externals \<Rightarrow> jsval \<Rightarrow> request \<Rightarrow> jsval" where
  "typeChecker E t req = JBool (truthy (typeis E req t))"

text \<open>
  The options after construction: the given options and the fields the constructor adds.
\<close>

record config = options +
  parsedLimit :: jsval
  parsedInflate :: bool
  parsedType :: jsval
  parsedVerify :: jsval
  queryparse :: "string \<Rightarrow> (http_error + jsval) \<times> event list"
  shouldParse :: "request \<Rightarrow> jsval"

text \<open>
  The constructor of \<^verbatim>\<open>UrlencodedParser\<close>. It returns the middleware
  \<^verbatim>\<open>createReader.call(this)\<close>, which is determined by the stored options; the model
  returns these, or the exception thrown, and the events of the construction. The
  argument \<open>None\<close> is a call without options (\<^verbatim>\<open>options || {}\<close>).
\<close>

definition UrlencodedParser ::
  "externals \<Rightarrow> options option \<Rightarrow> (js_exception + config) \<times> event list" where
  "UrlencodedParser E options =
     (let opts = (case options of None \<Rightarrow> no_options | Some given \<Rightarrow> given);
          ev = (if extended opts = JUndefined
                then [Deprecate ''undefined extended: provide extended option''] else []);
          pLimit = (if \<not> is_number (limit opts)
                    then bytes_parse E (js_or (limit opts) (JStr ''100kb''))
                    else limit opts);
          pInflate = (inflate opts \<noteq> JBool False);
          pType = js_or (type opts) (JStr ''application/x-www-form-urlencoded'');
          pVerify = js_or (verify opts) (JBool False)
      in if pVerify \<noteq> JBool False \<and> \<not> is_function pVerify
         then (Inl (TypeError ''option verify must be function''), ev)
         else
           (case (if extended opts \<noteq> JBool False then extendedparser E opts
                  else simpleparser E opts) of
              Inl e \<Rightarrow> (Inl e, ev)
            | Inr qp \<Rightarrow>
                (Inr \<lparr>extended = extended opts, inflate = inflate opts, limit = limit opts,
                    parameterLimit = parameterLimit opts, type = type opts,
                    verify = verify opts,
                    parsedLimit = pLimit, parsedInflate = pInflate, parsedType = pType,
                    parsedVerify = pVerify, queryparse = qp,
                    shouldParse = (case pType of JFun f \<Rightarrow> call_function E f
                                   | _ \<Rightarrow> typeChecker E pType)\<rparr>, ev)))"

section \<open>The middleware\<close>

text \<open>
  \<^verbatim>\<open>getCharset\<close>: \<open>None\<close> is the \<^verbatim>\<open>undefined\<close> of the \<^verbatim>\<open>catch\<close> branch. A
  parameter that is missing reads as \<^verbatim>\<open>undefined\<close>, which \<^verbatim>\<open>|| ''\<close> turns into the
  empty string.
\<close>

definition getCharset :: "externals \<Rightarrow> request \<Rightarrow> string option" where
  "getCharset E req =
     (case contentType_parse E req of
        None \<Rightarrow> None
      | Some ct \<Rightarrow>
          Some (toLowerCase E (case parameters ct ''charset'' of
                                 None \<Rightarrow> [] | Some c \<Rightarrow> c)))"

text \<open>
  \<^verbatim>\<open>checkParse\<close>: the value it returns and the calls it makes. \<^verbatim>\<open>next()\<close> is
  \<open>Next None\<close>, \<^verbatim>\<open>next(err)\<close> is \<open>Next (Some err)\<close>. \<open>CHR 0x22\<close> is the double
  quote around the charset in the message.
\<close>

definition checkParse ::
  "externals \<Rightarrow> request \<Rightarrow> config \<Rightarrow> string \<Rightarrow> bool \<times> event list" where
  "checkParse E req self charset =
     (if truthy (req_underscore_body req) then (False, [Next None])
      else if \<not> hasBody E req then (False, [HasBody, Next None])
      else if \<not> truthy (shouldParse self req) then (False, [HasBody, ShouldParse, Next None])
      else if charset \<noteq> ''utf-8''
      then (False, [HasBody, ShouldParse,
              Next (Some (createError 415
                (''unsupported charset '' @ [CHR 0x22] @ toUpperCase E charset @ [CHR 0x22])
                (Some charset) ''charset.unsupported''))])
      else (True, [HasBody, ShouldParse]))"

text \<open>
  Modelled from the spec: the function \<^verbatim>\<open>Reader\<close> of the package xprezzo-raw-body,
  whose code is not among the sources. By the spec's state machine it acquires the body
  under the given options; a failure of the acquisition goes to \<^verbatim>\<open>next\<close> as the
  reader reports it and nothing is parsed; otherwise the parse callback runs, its failure
  goes to \<^verbatim>\<open>next\<close>, and its result is stored on the request before \<^verbatim>\<open>next()\<close>.
\<close>

definition Reader ::
  "externals \<Rightarrow> request \<Rightarrow> (string \<Rightarrow> (http_error + jsval) \<times> event list) \<Rightarrow>
     reader_options \<Rightarrow> request \<times> event list" where
  "Reader E req parse ropts =
     (case acquire E req ropts of
        Inl err \<Rightarrow> (req, [Next (Some err)])
      | Inr payload \<Rightarrow>
          (case parse payload of
             (Inl err, ev) \<Rightarrow> (req, ev @ [Next (Some err)])
           | (Inr decoded, ev) \<Rightarrow> (req\<lparr>req_body := decoded\<rparr>, ev @ [Next None])))"

text \<open>
  The middleware that \<^verbatim>\<open>createReader\<close> returns, for the stored options \<open>self\<close>: the
  request after the call and the events of the call.
\<close>

definition createReader :: "externals \<Rightarrow> config \<Rightarrow> request \<Rightarrow> request \<times> event list" where
  "createReader E self req =
     (let charset = string_or (getCharset E req) ''utf-8'';
          req1 = req\<lparr>req_body := js_or (req_body req) (JObj [])\<rparr>;
          (ok, ev) = checkParse E req1 self charset
      in if \<not> ok then (req1, ContentTypeParse # ev)
         else
           (let ropts = \<lparr>encoding = charset, reader_inflate = parsedInflate self,
                         reader_limit = parsedLimit self, reader_verify = parsedVerify self\<rparr>;
                (req2, ev2) = Reader E req1
                   (\<lambda>payload. if payload \<noteq> [] then queryparse self payload
                              else (Inr (JObj []), []))
                   ropts
            in (req2, ContentTypeParse # ev @ ReaderCall ropts # ev2)))"

text \<open>
  Two shorthands for the statements below: the request after the assignment
  \<^verbatim>\<open>req.body = req.body || {}\<close>, and the options the middleware hands to the reader
  when the charset is \<^verbatim>\<open>utf-8\<close>.
\<close>

abbreviation with_placeholder :: "request \<Rightarrow> request" where
  "with_placeholder req \<equiv> req\<lparr>req_body := js_or (req_body req) (JObj [])\<rparr>"

abbreviation utf8_reader_options :: "config \<Rightarrow> reader_options" where
  "utf8_reader_options self \<equiv>
     \<lparr>encoding = ''utf-8'', reader_inflate = parsedInflate self,
      reader_limit = parsedLimit self, reader_verify = parsedVerify self\<rparr>"

section \<open>Stand-ins for the collaborators\<close>

text \<open>
  The options stored by a construction without options, as a value to run the middleware
  with.
\<close>

definition default_config :: "externals \<Rightarrow> config" where
  "default_config E =
     \<lparr>extended = JUndefined, inflate = JUndefined, limit = JUndefined,
      parameterLimit = JUndefined, type = JUndefined, verify = JUndefined,
      parsedLimit = bytes_parse E (JStr ''100kb''), parsedInflate = True,
      parsedType = JStr ''application/x-www-form-urlencoded'',
      parsedVerify = JBool False,
      queryparse = extended_queryparse E (JNum (Finite 1000)),
      shouldParse = typeChecker E (JStr ''application/x-www-form-urlencoded'')\<rparr>"

text \<open>
  The case mappings on strings of ASCII characters: a letter is mapped to its other case
  and every other character is kept. The stand-ins below use them, on such strings only.
\<close>

definition ascii_lower :: "string \<Rightarrow> string" where
  "ascii_lower s =
     map (\<lambda>c. case map_of (zip ''ABCDEFGHIJKLMNOPQRSTUVWXYZ'' ''abcdefghijklmnopqrstuvwxyz'') c of
               None \<Rightarrow> c | Some l \<Rightarrow> l) s"

definition ascii_upper :: "string \<Rightarrow> string" where
  "ascii_upper s =
     map (\<lambda>c. case map_of (zip ''abcdefghijklmnopqrstuvwxyz'' ''ABCDEFGHIJKLMNOPQRSTUVWXYZ'') c of
               None \<Rightarrow> c | Some u \<Rightarrow> u) s"

text \<open>
  To run the model on a concrete request the collaborators need values. These stand-ins
  give fixed answers: what \<^verbatim>\<open>contentType.parse\<close> returns, whether the request has a
  body, what the type check answers, and what the reader acquires. No string and no
  object converts to a number, \<^verbatim>\<open>bytes.parse\<close> answers 102400, and both key-value
  parsers return the object \<open>parsed\<close>.
\<close>

definition stand_in ::
  "content_type option \<Rightarrow> bool \<Rightarrow> jsval \<Rightarrow> (http_error + string) \<Rightarrow> jsval \<Rightarrow> externals" where
  "stand_in ct has_body matches acquired parsed =
     \<lparr>StringToNumber = (\<lambda>s. NaN),
      ObjectToNumber = (\<lambda>v. NaN),
      toLowerCase = ascii_lower,
      toUpperCase = ascii_upper,
      bytes_parse = (\<lambda>v. JNum (Finite 102400)),
      hasBody = (\<lambda>req. has_body),
      typeis = (\<lambda>req t. matches),
      call_function = (\<lambda>f req. matches),
      contentType_parse = (\<lambda>req. ct),
      acquire = (\<lambda>req ropts. acquired),
      qs_parse = (\<lambda>payload opts. parsed),
      querystring_parse = (\<lambda>payload sep eq opts. parsed)\<rparr>"

text \<open>A request with a form content type whose body field and flag are not set.\<close>

definition form_request :: request where
  "form_request =
     \<lparr>req_headers = [(''content-type'', ''application/x-www-form-urlencoded'')],
      req_body = JUndefined, req_underscore_body = JUndefined\<rparr>"

section \<open>Facts about the parameter counter\<close>

lemma first_index_None: "first_index c xs = None \<Longrightarrow> count_list xs c = 0"
  by (induction xs) (auto split: if_splits)

lemma first_index_Some:
  "first_index c xs = Some j \<Longrightarrow> count_list xs c = Suc (count_list (drop (Suc j) xs) c)"
  by (induction xs arbitrary: j) (auto split: if_splits)

lemma indexOf_None: "indexOf s c p = None \<Longrightarrow> count_list (drop p s) c = 0"
  by (simp add: indexOf_def first_index_None)

lemma indexOf_Some:
  assumes "indexOf s c p = Some i"
  shows "count_list (drop p s) c = Suc (count_list (drop (i + 1) s) c)"
proof -
  from assms obtain j where j: "first_index c (drop p s) = Some j" and i: "i = min p (length s) + j"
    by (auto simp: indexOf_def)
  from first_index_less [OF j] have "p < length s" by simp
  with i have "i = p + j" by simp
  with first_index_Some [OF j] show ?thesis by (simp add: add.commute)
qed

lemma parameterCount_loop_eq:
  "parameterCount_loop b lmt count index =
     (if \<exists>n. lmt = JNum (Finite (of_nat n)) \<and> count < n
             \<and> n \<le> count + count_list (drop index b) CHR ''&''
      then None else Some (count + count_list (drop index b) CHR ''&''))"
proof (induction b lmt count index rule: parameterCount_loop.induct)
  case (1 b lmt count index)
  show ?case
  proof (cases "indexOf b CHR ''&'' index")
    case None
    then show ?thesis
      using indexOf_None [OF None] by (subst parameterCount_loop.simps) simp
  next
    case (Some i)
    note k = indexOf_Some [OF Some]
    show ?thesis
    proof (cases "lmt = JNum (Finite (of_nat (count + 1)))")
      case True
      then show ?thesis
        using Some k by (subst parameterCount_loop.simps) auto
    next
      case False
      have ih: "parameterCount_loop b lmt (count + 1) (i + 1) =
         (if \<exists>n. lmt = JNum (Finite (of_nat n)) \<and> count + 1 < n
             \<and> n \<le> count + 1 + count_list (drop (i + 1) b) CHR ''&''
          then None else Some (count + 1 + count_list (drop (i + 1) b) CHR ''&''))"
        using "1.IH" [OF Some False] .
      have "(\<exists>n. lmt = JNum (Finite (of_nat n)) \<and> count + 1 < n
             \<and> n \<le> count + 1 + count_list (drop (i + 1) b) CHR ''&'')
          = (\<exists>n. lmt = JNum (Finite (of_nat n)) \<and> count < n
             \<and> n \<le> count + count_list (drop index b) CHR ''&'')"
        using False k by (metis Suc_eq_plus1 add_Suc_right add_Suc Suc_lessI Suc_lessD)
      moreover have "parameterCount_loop b lmt count index
          = parameterCount_loop b lmt (count + 1) (i + 1)"
        using Some False by (subst parameterCount_loop.simps) simp
      ultimately show ?thesis
        using k ih by auto
    qed
  qed
qed

lemma parameterCount_eq:
  "parameterCount b lmt =
     (if \<exists>n. lmt = JNum (Finite (of_nat n)) \<and> 0 < n \<and> n \<le> count_list b CHR ''&''
      then None else Some (count_list b CHR ''&''))"
  by (simp add: parameterCount_def parameterCount_loop_eq)

lemma parameterCount_at_limit:
  "0 < n \<Longrightarrow> n \<le> count_list b CHR ''&'' \<Longrightarrow> parameterCount b (JNum (Finite (of_nat n))) = None"
  by (auto simp: parameterCount_eq)

lemma parameterCount_below_limit:
  "count_list b CHR ''&'' < n \<Longrightarrow>
     parameterCount b (JNum (Finite (of_nat n))) = Some (count_list b CHR ''&'')"
  by (auto simp: parameterCount_eq)

lemma parameterCount_negative_limit:
  "l < 0 \<Longrightarrow> parameterCount b (JNum (Finite l)) = Some (count_list b CHR ''&'')"
  by (auto simp: parameterCount_eq)

lemma parameterCount_not_finite:
  "\<forall>x. lmt \<noteq> JNum (Finite x) \<Longrightarrow> parameterCount b lmt = Some (count_list b CHR ''&'')"
  by (auto simp: parameterCount_eq)

section \<open>Facts about the coercion\<close>

lemma truncate_rat_of_int: "truncate_rat (of_int c) = c"
  by (simp add: truncate_rat_def)

lemma ToInt32_in_range:
  "- (2 ^ 31) \<le> c \<Longrightarrow> c < 2 ^ 31 \<Longrightarrow> ToInt32 (Finite (of_int c)) = c"
  by (simp add: truncate_rat_of_int sint_sbintrunc' signed_take_bit_int_eq_self)

lemma extendedparser_of_int:
  assumes "1 \<le> c" and "c < 2 ^ 31"
  shows "extendedparser E (opts\<lparr>parameterLimit := JNum (Finite (of_int c))\<rparr>)
           = Inr (extended_queryparse E (JNum (Finite (of_int c))))"
  using assms by (simp add: extendedparser_def Let_def ToInt32_in_range del: ToInt32.simps)

lemma simpleparser_of_int:
  assumes "1 \<le> c" and "c < 2 ^ 31"
  shows "simpleparser E (opts\<lparr>parameterLimit := JNum (Finite (of_int c))\<rparr>)
           = Inr (simple_queryparse E (JNum (Finite (of_int c))))"
  using assms by (simp add: simpleparser_def Let_def ToInt32_in_range del: ToInt32.simps)

section \<open>The claims\<close>

subsection \<open>The parameter ceiling\<close>

lemma count_list_le_length: "count_list xs x \<le> length xs"
  by (induction xs) auto

lemma parser_of_positive_int:
  assumes "1 \<le> c"
  shows "extendedparser E (opts\<lparr>parameterLimit := JNum (Finite (of_int c))\<rparr>)
           = Inr (extended_queryparse E
                    (JNum (Finite (of_int (ToInt32 (Finite (of_int c)))))))"
    and "simpleparser E (opts\<lparr>parameterLimit := JNum (Finite (of_int c))\<rparr>)
           = Inr (simple_queryparse E
                    (JNum (Finite (of_int (ToInt32 (Finite (of_int c)))))))"
  using assms
  by (simp_all add: extendedparser_def simpleparser_def Let_def del: ToInt32.simps)

lemma coerced_in_range:
  assumes "1 \<le> c" and "c < 2 ^ 31"
  shows "JNum (Finite (of_int (ToInt32 (Finite (of_int c))))) = JNum (Finite (of_nat (nat c)))"
  using assms by (simp add: ToInt32_in_range del: ToInt32.simps)

lemma coerced_two_31:
  "JNum (Finite (of_int (ToInt32 (Finite (of_int (2 ^ 31)))))) = JNum (Finite (- (2 ^ 31)))"
  by (simp add: truncate_rat_def)

lemma counter_at_coerced_ceiling:
  assumes c: "1 \<le> c" and len: "length b < 2 ^ 31"
  shows "int (count_list b CHR ''&'') = c \<Longrightarrow>
           parameterCount b (JNum (Finite (of_int (ToInt32 (Finite (of_int c)))))) = None"
    and "int (count_list b CHR ''&'') = c - 1 \<Longrightarrow>
           parameterCount b (JNum (Finite (of_int (ToInt32 (Finite (of_int c))))))
             = Some (nat (c - 1))"
proof -
  have bound: "int (count_list b CHR ''&'') < 2 ^ 31"
    using count_list_le_length [of b "CHR ''&''"] len by simp
  show "parameterCount b (JNum (Finite (of_int (ToInt32 (Finite (of_int c)))))) = None"
    if at: "int (count_list b CHR ''&'') = c"
  proof -
    from at bound have "c < 2 ^ 31" by simp
    note eff = coerced_in_range [OF c this]
    show ?thesis
      unfolding eff using at c by (intro parameterCount_at_limit) auto
  qed
  show "parameterCount b (JNum (Finite (of_int (ToInt32 (Finite (of_int c))))))
          = Some (nat (c - 1))"
    if below: "int (count_list b CHR ''&'') = c - 1"
  proof (cases "c < 2 ^ 31")
    case True
    note eff = coerced_in_range [OF c True]
    from below c have "count_list b CHR ''&'' < nat c" by linarith
    from parameterCount_below_limit [OF this] below show ?thesis
      unfolding eff by (metis nat_int)
  next
    case False
    with below bound have top: "c = 2 ^ 31" by linarith
    have "parameterCount b (JNum (Finite (- (2 ^ 31)))) = Some (count_list b CHR ''&'')"
      by (rule parameterCount_negative_limit) simp
    moreover from below have "count_list b CHR ''&'' = nat (c - 1)" by linarith
    ultimately show ?thesis
      unfolding top coerced_two_31 by (simp only:)
  qed
qed

text \<open>
  C1. A body is a JavaScript string, and a string of the engine is shorter than
  \<open>2 ^ 31\<close> characters (the engine that runs the module holds at most \<open>2 ^ 29 - 24\<close>).
  For every configured ceiling \<open>c\<close> that is a positive integer, both constructors
  accept it and build the decoder whose ceiling is \<open>c\<close> coerced by \<^verbatim>\<open>| 0\<close>, which is
  \<open>c\<close> itself below \<open>2 ^ 31\<close>. On every body with exactly \<open>c\<close> separators the counter
  returns the sentinel and both decoders fail with the error \<open>too_many_parameters\<close>
  (status 413, kind \<^verbatim>\<open>parameters.too.many\<close>) without calling a parser. On every body
  with exactly \<open>c - 1\<close> separators the counter returns \<open>c - 1\<close> and both decoders
  return a decoded value.
\<close>

theorem parameter_ceiling_enforced:
  "1 \<le> c \<and> length b < 2 ^ 31 \<longrightarrow>
     extendedparser E (opts\<lparr>parameterLimit := JNum (Finite (of_int c))\<rparr>)
       = Inr (extended_queryparse E (JNum (Finite (of_int (ToInt32 (Finite (of_int c)))))))
   \<and> simpleparser E (opts\<lparr>parameterLimit := JNum (Finite (of_int c))\<rparr>)
       = Inr (simple_queryparse E (JNum (Finite (of_int (ToInt32 (Finite (of_int c)))))))
   \<and> (c < 2 ^ 31 \<longrightarrow> ToInt32 (Finite (of_int c)) = c)
   \<and> (int (count_list b CHR ''&'') = c \<longrightarrow>
        parameterCount b (JNum (Finite (of_int (ToInt32 (Finite (of_int c)))))) = None
      \<and> extended_queryparse E (JNum (Finite (of_int (ToInt32 (Finite (of_int c)))))) b
          = (Inl too_many_parameters, [])
      \<and> simple_queryparse E (JNum (Finite (of_int (ToInt32 (Finite (of_int c)))))) b
          = (Inl too_many_parameters, []))
   \<and> (int (count_list b CHR ''&'') = c - 1 \<longrightarrow>
        parameterCount b (JNum (Finite (of_int (ToInt32 (Finite (of_int c))))))
          = Some (nat (c - 1))
      \<and> (\<exists>decoded. fst (extended_queryparse E
            (JNum (Finite (of_int (ToInt32 (Finite (of_int c)))))) b) = Inr decoded)
      \<and> (\<exists>decoded. fst (simple_queryparse E
            (JNum (Finite (of_int (ToInt32 (Finite (of_int c)))))) b) = Inr decoded))"
proof (intro impI, elim conjE)
  assume c: "1 \<le> c" and len: "length b < 2 ^ 31"
  note counter = counter_at_coerced_ceiling [OF c len]
  have range: "ToInt32 (Finite (of_int c)) = c" if "c < 2 ^ 31"
    using c that by (intro ToInt32_in_range) auto
  show "extendedparser E (opts\<lparr>parameterLimit := JNum (Finite (of_int c))\<rparr>)
       = Inr (extended_queryparse E (JNum (Finite (of_int (ToInt32 (Finite (of_int c)))))))
   \<and> simpleparser E (opts\<lparr>parameterLimit := JNum (Finite (of_int c))\<rparr>)
       = Inr (simple_queryparse E (JNum (Finite (of_int (ToInt32 (Finite (of_int c)))))))
   \<and> (c < 2 ^ 31 \<longrightarrow> ToInt32 (Finite (of_int c)) = c)
   \<and> (int (count_list b CHR ''&'') = c \<longrightarrow>
        parameterCount b (JNum (Finite (of_int (ToInt32 (Finite (of_int c)))))) = None
      \<and> extended_queryparse E (JNum (Finite (of_int (ToInt32 (Finite (of_int c)))))) b
          = (Inl too_many_parameters, [])
      \<and> simple_queryparse E (JNum (Finite (of_int (ToInt32 (Finite (of_int c)))))) b
          = (Inl too_many_parameters, []))
   \<and> (int (count_list b CHR ''&'') = c - 1 \<longrightarrow>
        parameterCount b (JNum (Finite (of_int (ToInt32 (Finite (of_int c))))))
          = Some (nat (c - 1))
      \<and> (\<exists>decoded. fst (extended_queryparse E
            (JNum (Finite (of_int (ToInt32 (Finite (of_int c)))))) b) = Inr decoded)
      \<and> (\<exists>decoded. fst (simple_queryparse E
            (JNum (Finite (of_int (ToInt32 (Finite (of_int c)))))) b) = Inr decoded))"
    using counter range
    by (simp add: parser_of_positive_int [OF c] extended_queryparse_def
        simple_queryparse_def Let_def del: ToInt32.simps)
qed

theorem parameter_ceiling_enforced_witness:
  "\<forall>E. length ''a=1&b=2&c=3'' < 2 ^ 31 \<and> length ''a=1&b=2'' < 2 ^ 31
     \<and> extendedparser E (no_options\<lparr>parameterLimit := JNum (Finite 2)\<rparr>)
       = Inr (extended_queryparse E (JNum (Finite 2)))
     \<and> simpleparser E (no_options\<lparr>parameterLimit := JNum (Finite 2)\<rparr>)
       = Inr (simple_queryparse E (JNum (Finite 2)))
     \<and> count_list ''a=1&b=2&c=3'' CHR ''&'' = 2
     \<and> extended_queryparse E (JNum (Finite 2)) ''a=1&b=2&c=3'' = (Inl too_many_parameters, [])
     \<and> simple_queryparse E (JNum (Finite 2)) ''a=1&b=2&c=3'' = (Inl too_many_parameters, [])
     \<and> count_list ''a=1&b=2'' CHR ''&'' = 1
     \<and> parameterCount ''a=1&b=2'' (JNum (Finite 2)) = Some 1
     \<and> (\<exists>decoded. fst (extended_queryparse E (JNum (Finite 2)) ''a=1&b=2'') = Inr decoded)
     \<and> (\<exists>decoded. fst (simple_queryparse E (JNum (Finite 2)) ''a=1&b=2'') = Inr decoded)"
  using parameter_ceiling_enforced [of 2 "''a=1&b=2&c=3''" _ no_options]
    parameter_ceiling_enforced [of 2 "''a=1&b=2''" _ no_options]
  by (simp add: truncate_rat_def)

subsection \<open>The fixed options of the delegation\<close>

lemma decoder_errors:
  "fst (extended_queryparse E lmt b) \<noteq> Inl too_many_parameters
     \<longleftrightarrow> parameterCount b lmt \<noteq> None"
  "fst (simple_queryparse E lmt b) \<noteq> Inl too_many_parameters
     \<longleftrightarrow> parameterCount b lmt \<noteq> None"
  by (auto simp: extended_queryparse_def simple_queryparse_def Let_def split: option.splits)

text \<open>
  C7. Whenever the counter returns a count \<open>n\<close> for a body, the extended decoder calls
  the nested parser on that body with prototype-like keys allowed, the array limit
  \<open>max 100 n\<close>, the depth \<^verbatim>\<open>Infinity\<close> and its ceiling, and returns the parser's
  result; the simple decoder calls the flat parser with its ceiling as \<^verbatim>\<open>maxKeys\<close>.
  The decoders that the constructors return are these two functions, at the ceiling the
  constructor computes from \<^verbatim>\<open>parameterLimit\<close>.
\<close>

theorem decoders_delegate_with_fixed_options:
  "(parameterCount b lmt = Some n \<longrightarrow>
      extended_queryparse E lmt b =
        (Inr (qs_parse E b \<lparr>allowPrototypes = True, arrayLimit = max 100 n,
                             depth = PosInfinity, qs_parameterLimit = lmt\<rparr>),
         [QsParse b \<lparr>allowPrototypes = True, arrayLimit = max 100 n,
                      depth = PosInfinity, qs_parameterLimit = lmt\<rparr>])
    \<and> simple_queryparse E lmt b =
        (Inr (querystring_parse E b JUndefined JUndefined \<lparr>maxKeys = lmt\<rparr>),
         [QuerystringParse b JUndefined JUndefined \<lparr>maxKeys = lmt\<rparr>]))
   \<and> (extendedparser E opts = Inr xdec \<longrightarrow>
        xdec = extended_queryparse E
          (let given = (if parameterLimit opts \<noteq> JUndefined then parameterLimit opts
                        else JNum (Finite 1000));
               x = ToNumber (StringToNumber E) (ObjectToNumber E) given
           in if num_isFinite x then JNum (Finite (of_int (ToInt32 x))) else given))
   \<and> (simpleparser E opts = Inr sdec \<longrightarrow>
        sdec = simple_queryparse E
          (let given = (if parameterLimit opts \<noteq> JUndefined then parameterLimit opts
                        else JNum (Finite 1000));
               x = ToNumber (StringToNumber E) (ObjectToNumber E) given
           in if num_isFinite x then JNum (Finite (of_int (ToInt32 x))) else given))"
  by (auto simp: extended_queryparse_def simple_queryparse_def extendedparser_def
      simpleparser_def Let_def simp del: ToInt32.simps split: if_splits)

theorem decoders_delegate_with_fixed_options_witness:
  "\<forall>E. parameterCount ''a=1&b=2'' (JNum (Finite 5)) = Some 1
     \<and> extended_queryparse E (JNum (Finite 5)) ''a=1&b=2'' =
        (Inr (qs_parse E ''a=1&b=2'' \<lparr>allowPrototypes = True, arrayLimit = 100,
                             depth = PosInfinity, qs_parameterLimit = JNum (Finite 5)\<rparr>),
         [QsParse ''a=1&b=2'' \<lparr>allowPrototypes = True, arrayLimit = 100,
                      depth = PosInfinity, qs_parameterLimit = JNum (Finite 5)\<rparr>])
     \<and> simple_queryparse E (JNum (Finite 5)) ''a=1&b=2'' =
        (Inr (querystring_parse E ''a=1&b=2'' JUndefined JUndefined
                \<lparr>maxKeys = JNum (Finite 5)\<rparr>),
         [QuerystringParse ''a=1&b=2'' JUndefined JUndefined \<lparr>maxKeys = JNum (Finite 5)\<rparr>])
     \<and> extendedparser E (no_options\<lparr>parameterLimit := JNum (Finite 5)\<rparr>)
          = Inr (extended_queryparse E (JNum (Finite 5)))
     \<and> simpleparser E (no_options\<lparr>parameterLimit := JNum (Finite 5)\<rparr>)
          = Inr (simple_queryparse E (JNum (Finite 5)))"
proof
  fix E
  have count: "parameterCount ''a=1&b=2'' (JNum (Finite 5)) = Some 1"
    using parameterCount_below_limit [of "''a=1&b=2''" 5] by simp
  have x: "extendedparser E (no_options\<lparr>parameterLimit := JNum (Finite 5)\<rparr>)
          = Inr (extended_queryparse E (JNum (Finite 5)))"
    using extendedparser_of_int [of 5 E no_options] by simp 
  have s: "simpleparser E (no_options\<lparr>parameterLimit := JNum (Finite 5)\<rparr>)
          = Inr (simple_queryparse E (JNum (Finite 5)))"
    using simpleparser_of_int [of 5 E no_options] by simp
  show "parameterCount ''a=1&b=2'' (JNum (Finite 5)) = Some 1
     \<and> extended_queryparse E (JNum (Finite 5)) ''a=1&b=2'' =
        (Inr (qs_parse E ''a=1&b=2'' \<lparr>allowPrototypes = True, arrayLimit = 100,
                             depth = PosInfinity, qs_parameterLimit = JNum (Finite 5)\<rparr>),
         [QsParse ''a=1&b=2'' \<lparr>allowPrototypes = True, arrayLimit = 100,
                      depth = PosInfinity, qs_parameterLimit = JNum (Finite 5)\<rparr>])
     \<and> simple_queryparse E (JNum (Finite 5)) ''a=1&b=2'' =
        (Inr (querystring_parse E ''a=1&b=2'' JUndefined JUndefined
                \<lparr>maxKeys = JNum (Finite 5)\<rparr>),
         [QuerystringParse ''a=1&b=2'' JUndefined JUndefined \<lparr>maxKeys = JNum (Finite 5)\<rparr>])
     \<and> extendedparser E (no_options\<lparr>parameterLimit := JNum (Finite 5)\<rparr>)
          = Inr (extended_queryparse E (JNum (Finite 5)))
     \<and> simpleparser E (no_options\<lparr>parameterLimit := JNum (Finite 5)\<rparr>)
          = Inr (simple_queryparse E (JNum (Finite 5)))"
    using decoders_delegate_with_fixed_options
      [of "''a=1&b=2''" "JNum (Finite 5)" 1 E "no_options\<lparr>parameterLimit := JNum (Finite 5)\<rparr>"
          "extended_queryparse E (JNum (Finite 5))" "simple_queryparse E (JNum (Finite 5))"]
      count x s
    by (simp add: truncate_rat_def)
qed

subsection \<open>The 32-bit coercion of the ceiling\<close>

text \<open>
  C10. The value \<open>2 ^ 31\<close> passes the validation of both constructors, and the decoder
  they build holds the ceiling \<open>- 2 ^ 31\<close>, which is not the configured value. With a
  negative ceiling the counter never returns the sentinel: it returns the number of
  separators of every body, and neither decoder fails with \<open>too_many_parameters\<close>.
\<close>

theorem int32_coercion_unbounded:
  "extendedparser E (opts\<lparr>parameterLimit := JNum (Finite (2 ^ 31))\<rparr>)
     = Inr (extended_queryparse E (JNum (Finite (- (2 ^ 31)))))
   \<and> simpleparser E (opts\<lparr>parameterLimit := JNum (Finite (2 ^ 31))\<rparr>)
     = Inr (simple_queryparse E (JNum (Finite (- (2 ^ 31)))))
   \<and> (l < 0 \<longrightarrow>
        parameterCount b (JNum (Finite l)) = Some (count_list b CHR ''&'')
      \<and> fst (extended_queryparse E (JNum (Finite l)) b) \<noteq> Inl too_many_parameters
      \<and> fst (simple_queryparse E (JNum (Finite l)) b) \<noteq> Inl too_many_parameters)"
  by (simp add: extendedparser_def simpleparser_def Let_def truncate_rat_def
      decoder_errors parameterCount_negative_limit)

theorem int32_coercion_unbounded_witness:
  "\<forall>E. extendedparser E (no_options\<lparr>parameterLimit := JNum (Finite (2 ^ 31))\<rparr>)
         = Inr (extended_queryparse E (JNum (Finite (- (2 ^ 31)))))
     \<and> simpleparser E (no_options\<lparr>parameterLimit := JNum (Finite (2 ^ 31))\<rparr>)
         = Inr (simple_queryparse E (JNum (Finite (- (2 ^ 31)))))
     \<and> (- (2 ^ 31) :: rat) < 0
     \<and> parameterCount ''a=1&b=2&c=3'' (JNum (Finite (- (2 ^ 31)))) = Some 2
     \<and> fst (extended_queryparse E (JNum (Finite (- (2 ^ 31)))) ''a=1&b=2&c=3'')
          \<noteq> Inl too_many_parameters
     \<and> fst (simple_queryparse E (JNum (Finite (- (2 ^ 31)))) ''a=1&b=2&c=3'')
          \<noteq> Inl too_many_parameters"
  using int32_coercion_unbounded [of _ no_options "- (2 ^ 31)" "''a=1&b=2&c=3''"]
  by simp

subsection \<open>The validation at construction\<close>

lemma parser_fails_iff:
  "isl (extendedparser E opts) =
     (let given = (if parameterLimit opts \<noteq> JUndefined then parameterLimit opts
                   else JNum (Finite 1000));
          x = ToNumber (StringToNumber E) (ObjectToNumber E) given
      in x = NaN \<or> num_less x (Finite 1))"
  "isl (simpleparser E opts) =
     (let given = (if parameterLimit opts \<noteq> JUndefined then parameterLimit opts
                   else JNum (Finite 1000));
          x = ToNumber (StringToNumber E) (ObjectToNumber E) given
      in x = NaN \<or> num_less x (Finite 1))"
  by (simp_all add: extendedparser_def simpleparser_def Let_def del: ToInt32.simps)

lemma parser_exception:
  "extendedparser E opts = Inl exn \<Longrightarrow>
     exn = TypeError ''option parameterLimit must be a positive number''"
  "simpleparser E opts = Inl exn \<Longrightarrow>
     exn = TypeError ''option parameterLimit must be a positive number''"
  by (auto simp: extendedparser_def simpleparser_def Let_def simp del: ToInt32.simps
      split: if_splits)

lemma verify_check:
  "(js_or v (JBool False) \<noteq> JBool False \<and> \<not> is_function (js_or v (JBool False)))
     = (truthy v \<and> \<not> is_function v)"
  by (cases v) (auto simp: js_or_def)

lemma UrlencodedParser_fails_iff:
  "isl (fst (UrlencodedParser E options)) =
     (let opts = (case options of None \<Rightarrow> no_options | Some given \<Rightarrow> given)
      in (truthy (verify opts) \<and> \<not> is_function (verify opts))
         \<or> (if extended opts \<noteq> JBool False then isl (extendedparser E opts)
             else isl (simpleparser E opts)))"
  unfolding UrlencodedParser_def Let_def verify_check
  by (simp split: sum.splits)

lemma UrlencodedParser_exception:
  assumes "fst (UrlencodedParser E options) = Inl exn"
  shows "exn = TypeError ''option verify must be function''
       \<or> exn = TypeError ''option parameterLimit must be a positive number''"
  using assms unfolding UrlencodedParser_def Let_def
  by (auto split: if_splits sum.splits dest: parser_exception)

lemma decoder_only_error:
  "fst (extended_queryparse E lmt b) = Inl err \<Longrightarrow> err = too_many_parameters"
  "fst (simple_queryparse E lmt b) = Inl err \<Longrightarrow> err = too_many_parameters"
  by (auto simp: extended_queryparse_def simple_queryparse_def Let_def split: option.splits)

lemma infinite_limit:
  "extendedparser E (opts\<lparr>parameterLimit := JNum PosInfinity\<rparr>)
     = Inr (extended_queryparse E (JNum PosInfinity))"
  "simpleparser E (opts\<lparr>parameterLimit := JNum PosInfinity\<rparr>)
     = Inr (simple_queryparse E (JNum PosInfinity))"
  "parameterCount b (JNum PosInfinity) = Some (count_list b CHR ''&'')"
  by (simp_all add: extendedparser_def simpleparser_def parameterCount_not_finite)

text \<open>
  C4, as amended. Construction raises exactly when \<^verbatim>\<open>verify\<close> is truthy and not a
  function, or when \<^verbatim>\<open>parameterLimit\<close> (1000 when it is not given), converted to a
  number, is not a number or is less than 1; what it raises is one of the two type errors.
  A falsy \<^verbatim>\<open>verify\<close> counts as absent. An infinite \<^verbatim>\<open>parameterLimit\<close> is accepted
  by both constructors and kept as the ceiling, and the ceiling is then unbounded: the
  counter returns the number of separators of every body and neither decoder fails. The
  decoders validate nothing per call: at any ceiling, the only error they return is
  \<open>too_many_parameters\<close>.
\<close>

theorem construction_fails_iff:
  "isl (fst (UrlencodedParser E options)) =
     (let opts = (case options of None \<Rightarrow> no_options | Some given \<Rightarrow> given);
          given = (if parameterLimit opts \<noteq> JUndefined then parameterLimit opts
                   else JNum (Finite 1000));
          x = ToNumber (StringToNumber E) (ObjectToNumber E) given
      in (truthy (verify opts) \<and> \<not> is_function (verify opts))
         \<or> x = NaN \<or> num_less x (Finite 1))
   \<and> (fst (UrlencodedParser E options) = Inl exn \<longrightarrow>
        exn = TypeError ''option verify must be function''
      \<or> exn = TypeError ''option parameterLimit must be a positive number'')
   \<and> extendedparser E (no_options\<lparr>parameterLimit := JNum PosInfinity\<rparr>)
        = Inr (extended_queryparse E (JNum PosInfinity))
   \<and> simpleparser E (no_options\<lparr>parameterLimit := JNum PosInfinity\<rparr>)
        = Inr (simple_queryparse E (JNum PosInfinity))
   \<and> parameterCount b (JNum PosInfinity) = Some (count_list b CHR ''&'')
   \<and> fst (extended_queryparse E (JNum PosInfinity) b) \<noteq> Inl too_many_parameters
   \<and> fst (simple_queryparse E (JNum PosInfinity) b) \<noteq> Inl too_many_parameters
   \<and> (fst (extended_queryparse E lmt b) = Inl err \<longrightarrow> err = too_many_parameters)
   \<and> (fst (simple_queryparse E lmt b) = Inl err \<longrightarrow> err = too_many_parameters)"
proof -
  have "isl (fst (UrlencodedParser E options)) =
     (let opts = (case options of None \<Rightarrow> no_options | Some given \<Rightarrow> given);
          given = (if parameterLimit opts \<noteq> JUndefined then parameterLimit opts
                   else JNum (Finite 1000));
          x = ToNumber (StringToNumber E) (ObjectToNumber E) given
      in (truthy (verify opts) \<and> \<not> is_function (verify opts))
         \<or> x = NaN \<or> num_less x (Finite 1))"
    unfolding UrlencodedParser_fails_iff parser_fails_iff by (simp add: Let_def)
  moreover have "fst (extended_queryparse E (JNum PosInfinity) b) \<noteq> Inl too_many_parameters"
    "fst (simple_queryparse E (JNum PosInfinity) b) \<noteq> Inl too_many_parameters"
    by (simp_all add: decoder_errors infinite_limit)
  ultimately show ?thesis
    using UrlencodedParser_exception [of E options exn]
      decoder_only_error [of E lmt b err]
      infinite_limit(1) [of E no_options] infinite_limit(2) [of E no_options]
      infinite_limit(3) [of b]
    by blast
qed

theorem construction_fails_iff_witness:
  "\<forall>E. isl (fst (UrlencodedParser E (Some (no_options\<lparr>parameterLimit := JNum (Finite 0)\<rparr>))))
     \<and> fst (UrlencodedParser E (Some (no_options\<lparr>parameterLimit := JNum (Finite 0)\<rparr>)))
         = Inl (TypeError ''option parameterLimit must be a positive number'')
     \<and> isl (fst (UrlencodedParser E (Some (no_options\<lparr>verify := JStr ''yes''\<rparr>))))
     \<and> fst (UrlencodedParser E (Some (no_options\<lparr>verify := JStr ''yes''\<rparr>)))
         = Inl (TypeError ''option verify must be function'')
     \<and> \<not> isl (fst (UrlencodedParser E (Some (no_options\<lparr>verify := JFun 0\<rparr>))))
     \<and> \<not> isl (fst (UrlencodedParser E
                (Some (no_options\<lparr>parameterLimit := JNum PosInfinity\<rparr>))))
     \<and> \<not> isl (fst (UrlencodedParser (E\<lparr>ObjectToNumber := \<lambda>v. Finite 5\<rparr>)
                (Some (no_options\<lparr>parameterLimit := JObj [(''valueOf'', JFun 0)]\<rparr>))))
     \<and> isl (fst (UrlencodedParser (E\<lparr>ObjectToNumber := \<lambda>v. NaN\<rparr>)
                (Some (no_options\<lparr>parameterLimit := JObj []\<rparr>))))
     \<and> parameterCount ''a&b'' (JNum PosInfinity) = Some 1
     \<and> fst (extended_queryparse E (JNum (Finite 1)) ''a&b'') = Inl too_many_parameters
     \<and> fst (simple_queryparse E (JNum (Finite 1)) ''a&b'') = Inl too_many_parameters"
proof
  fix E
  have count: "parameterCount ''a&b'' (JNum (Finite 1)) = None"
    using parameterCount_at_limit [of 1 "''a&b''"] by simp
  have a: "fst (UrlencodedParser E (Some (no_options\<lparr>parameterLimit := JNum (Finite 0)\<rparr>)))
         = Inl (TypeError ''option parameterLimit must be a positive number'')"
    by (simp add: UrlencodedParser_def no_options_def js_or_def extendedparser_def)
  have b: "fst (UrlencodedParser E (Some (no_options\<lparr>verify := JStr ''yes''\<rparr>)))
         = Inl (TypeError ''option verify must be function'')"
    by (simp add: UrlencodedParser_def no_options_def js_or_def)
  show "isl (fst (UrlencodedParser E (Some (no_options\<lparr>parameterLimit := JNum (Finite 0)\<rparr>))))
     \<and> fst (UrlencodedParser E (Some (no_options\<lparr>parameterLimit := JNum (Finite 0)\<rparr>)))
         = Inl (TypeError ''option parameterLimit must be a positive number'')
     \<and> isl (fst (UrlencodedParser E (Some (no_options\<lparr>verify := JStr ''yes''\<rparr>))))
     \<and> fst (UrlencodedParser E (Some (no_options\<lparr>verify := JStr ''yes''\<rparr>)))
         = Inl (TypeError ''option verify must be function'')
     \<and> \<not> isl (fst (UrlencodedParser E (Some (no_options\<lparr>verify := JFun 0\<rparr>))))
     \<and> \<not> isl (fst (UrlencodedParser E
                (Some (no_options\<lparr>parameterLimit := JNum PosInfinity\<rparr>))))
     \<and> \<not> isl (fst (UrlencodedParser (E\<lparr>ObjectToNumber := \<lambda>v. Finite 5\<rparr>)
                (Some (no_options\<lparr>parameterLimit := JObj [(''valueOf'', JFun 0)]\<rparr>))))
     \<and> isl (fst (UrlencodedParser (E\<lparr>ObjectToNumber := \<lambda>v. NaN\<rparr>)
                (Some (no_options\<lparr>parameterLimit := JObj []\<rparr>))))
     \<and> parameterCount ''a&b'' (JNum PosInfinity) = Some 1
     \<and> fst (extended_queryparse E (JNum (Finite 1)) ''a&b'') = Inl too_many_parameters
     \<and> fst (simple_queryparse E (JNum (Finite 1)) ''a&b'') = Inl too_many_parameters"
    using construction_fails_iff
        [of E "Some (no_options\<lparr>parameterLimit := JNum (Finite 0)\<rparr>)"
          "TypeError ''option parameterLimit must be a positive number''"
          "''a&b''" "JNum (Finite 1)" too_many_parameters]
      construction_fails_iff
        [of E "Some (no_options\<lparr>verify := JStr ''yes''\<rparr>)"
          "TypeError ''option verify must be function''"
          "''a&b''" "JNum (Finite 1)" too_many_parameters]
      construction_fails_iff
        [of E "Some (no_options\<lparr>verify := JFun 0\<rparr>)"
          "TypeError ''option verify must be function''"
          "''a&b''" "JNum (Finite 1)" too_many_parameters]
      construction_fails_iff
        [of E "Some (no_options\<lparr>parameterLimit := JNum PosInfinity\<rparr>)"
          "TypeError ''option verify must be function''"
          "''a&b''" "JNum (Finite 1)" too_many_parameters]
      construction_fails_iff
        [of "E\<lparr>ObjectToNumber := \<lambda>v. Finite 5\<rparr>"
          "Some (no_options\<lparr>parameterLimit := JObj [(''valueOf'', JFun 0)]\<rparr>)"
          "TypeError ''option verify must be function''"
          "''a&b''" "JNum (Finite 1)" too_many_parameters]
      construction_fails_iff
        [of "E\<lparr>ObjectToNumber := \<lambda>v. NaN\<rparr>"
          "Some (no_options\<lparr>parameterLimit := JObj []\<rparr>)"
          "TypeError ''option verify must be function''"
          "''a&b''" "JNum (Finite 1)" too_many_parameters]
      a b count
    by (simp add: no_options_def extended_queryparse_def simple_queryparse_def)
qed

text \<open>
  The claim as stated fails: positive infinity is not a finite positive number, and the
  number 0 as \<^verbatim>\<open>verify\<close> is present, not \<^verbatim>\<open>false\<close> and not callable, yet
  construction succeeds with either.
\<close>

theorem construction_accepts_infinity_counterexample:
  "\<not> num_isFinite PosInfinity
   \<and> \<not> isl (fst (UrlencodedParser (stand_in None True (JBool True) (Inr []) (JObj []))
         (Some (no_options\<lparr>extended := JBool True, parameterLimit := JNum PosInfinity\<rparr>))))
   \<and> \<not> isl (fst (UrlencodedParser (stand_in None True (JBool True) (Inr []) (JObj []))
         (Some (no_options\<lparr>extended := JBool False, parameterLimit := JNum PosInfinity\<rparr>))))
   \<and> JNum (Finite 0) \<noteq> JUndefined \<and> JNum (Finite 0) \<noteq> JBool False
   \<and> \<not> is_function (JNum (Finite 0))
   \<and> \<not> isl (fst (UrlencodedParser (stand_in None True (JBool True) (Inr []) (JObj []))
         (Some (no_options\<lparr>extended := JBool True, verify := JNum (Finite 0)\<rparr>))))"
  by (simp add: UrlencodedParser_def no_options_def js_or_def extendedparser_def
      simpleparser_def Let_def)

subsection \<open>Strategy selection and defaults\<close>

lemma parser_default_limit:
  "parameterLimit opts = JUndefined \<Longrightarrow>
     extendedparser E opts = Inr (extended_queryparse E (JNum (Finite 1000)))"
  "parameterLimit opts = JUndefined \<Longrightarrow>
     simpleparser E opts = Inr (simple_queryparse E (JNum (Finite 1000)))"
  by (simp_all add: extendedparser_def simpleparser_def truncate_rat_def)

lemma UrlencodedParser_success:
  assumes "UrlencodedParser E (Some opts) = (Inr cfg, ev)"
  shows "(if extended opts \<noteq> JBool False then extendedparser E opts
          else simpleparser E opts) = Inr (queryparse cfg)"
    and "ev = (if extended opts = JUndefined
               then [Deprecate ''undefined extended: provide extended option''] else [])"
    and "parsedLimit cfg = (if \<not> is_number (limit opts)
                    then bytes_parse E (js_or (limit opts) (JStr ''100kb''))
                    else limit opts)"
  using assms unfolding UrlencodedParser_def Let_def
  by (auto split: if_splits sum.splits)

lemma UrlencodedParser_no_options:
  "UrlencodedParser E None =
     (Inr (default_config E), [Deprecate ''undefined extended: provide extended option''])"
  by (simp add: UrlencodedParser_def Let_def js_or_def parser_default_limit no_options_def
      default_config_def)

text \<open>
  C9. Whenever construction succeeds: with \<^verbatim>\<open>extended\<close> true or absent the stored
  decoder is the one \<^verbatim>\<open>extendedparser\<close> builds, with \<^verbatim>\<open>extended\<close> false the one
  \<^verbatim>\<open>simpleparser\<close> builds; the deprecation notice is given when \<^verbatim>\<open>extended\<close> is
  absent and not when it is a boolean; an absent \<^verbatim>\<open>parameterLimit\<close> gives the decoder
  the ceiling 1000; an absent \<^verbatim>\<open>limit\<close> gives the size limit
  \<^verbatim>\<open>bytes.parse('100kb')\<close>. Construction without any options succeeds, with the
  notice, the extended decoder at the ceiling 1000 and that size limit.
\<close>

theorem strategy_selection_and_defaults:
  "(UrlencodedParser E (Some opts) = (Inr cfg, ev) \<longrightarrow>
      (extended opts = JBool True \<or> extended opts = JUndefined \<longrightarrow>
         extendedparser E opts = Inr (queryparse cfg))
    \<and> (extended opts = JBool False \<longrightarrow> simpleparser E opts = Inr (queryparse cfg))
    \<and> (extended opts = JUndefined \<longrightarrow>
         ev = [Deprecate ''undefined extended: provide extended option''])
    \<and> (extended opts = JBool True \<or> extended opts = JBool False \<longrightarrow> ev = [])
    \<and> (parameterLimit opts = JUndefined \<longrightarrow>
         queryparse cfg = (if extended opts = JBool False
                           then simple_queryparse E (JNum (Finite 1000))
                           else extended_queryparse E (JNum (Finite 1000))))
    \<and> (limit opts = JUndefined \<longrightarrow> parsedLimit cfg = bytes_parse E (JStr ''100kb'')))
   \<and> (\<exists>cfg0. UrlencodedParser E None =
          (Inr cfg0, [Deprecate ''undefined extended: provide extended option''])
        \<and> queryparse cfg0 = extended_queryparse E (JNum (Finite 1000))
        \<and> parsedLimit cfg0 = bytes_parse E (JStr ''100kb''))"
proof (intro conjI impI)
  assume a: "UrlencodedParser E (Some opts) = (Inr cfg, ev)"
  note s = UrlencodedParser_success [OF a]
  show "extendedparser E opts = Inr (queryparse cfg)"
    if "extended opts = JBool True \<or> extended opts = JUndefined"
    using s(1) that by auto
  show "simpleparser E opts = Inr (queryparse cfg)" if "extended opts = JBool False"
    using s(1) that by simp
  show "ev = [Deprecate ''undefined extended: provide extended option'']"
    if "extended opts = JUndefined"
    using s(2) that by simp
  show "ev = []" if "extended opts = JBool True \<or> extended opts = JBool False"
    using s(2) that by auto
  show "queryparse cfg = (if extended opts = JBool False
                           then simple_queryparse E (JNum (Finite 1000))
                           else extended_queryparse E (JNum (Finite 1000)))"
    if "parameterLimit opts = JUndefined"
    using s(1) parser_default_limit [OF that, of E] by (auto split: if_splits)
  show "parsedLimit cfg = bytes_parse E (JStr ''100kb'')" if "limit opts = JUndefined"
    using s(3) that by (simp add: js_or_def)
next
  show "\<exists>cfg0. UrlencodedParser E None =
          (Inr cfg0, [Deprecate ''undefined extended: provide extended option''])
        \<and> queryparse cfg0 = extended_queryparse E (JNum (Finite 1000))
        \<and> parsedLimit cfg0 = bytes_parse E (JStr ''100kb'')"
    unfolding UrlencodedParser_no_options by (simp add: default_config_def)
qed

theorem strategy_selection_and_defaults_witness:
  "\<forall>E. snd (UrlencodedParser E (Some no_options))
         = [Deprecate ''undefined extended: provide extended option'']
     \<and> map_sum id queryparse (fst (UrlencodedParser E (Some no_options)))
         = Inr (extended_queryparse E (JNum (Finite 1000)))
     \<and> extendedparser E no_options = Inr (extended_queryparse E (JNum (Finite 1000)))
     \<and> map_sum id parsedLimit (fst (UrlencodedParser E (Some no_options)))
         = Inr (bytes_parse E (JStr ''100kb''))
     \<and> snd (UrlencodedParser E (Some (no_options\<lparr>extended := JBool True\<rparr>))) = []
     \<and> map_sum id queryparse
           (fst (UrlencodedParser E (Some (no_options\<lparr>extended := JBool True\<rparr>))))
         = Inr (extended_queryparse E (JNum (Finite 1000)))
     \<and> snd (UrlencodedParser E (Some (no_options\<lparr>extended := JBool False\<rparr>))) = []
     \<and> map_sum id queryparse
           (fst (UrlencodedParser E (Some (no_options\<lparr>extended := JBool False\<rparr>))))
         = Inr (simple_queryparse E (JNum (Finite 1000)))
     \<and> simpleparser E (no_options\<lparr>extended := JBool False\<rparr>)
         = Inr (simple_queryparse E (JNum (Finite 1000)))"
proof
  fix E
  define built where "built x =
     \<lparr>extended = x, inflate = JUndefined, limit = JUndefined,
      parameterLimit = JUndefined, type = JUndefined, verify = JUndefined,
      parsedLimit = bytes_parse E (JStr ''100kb''), parsedInflate = True,
      parsedType = JStr ''application/x-www-form-urlencoded'',
      parsedVerify = JBool False,
      queryparse = (if x = JBool False then simple_queryparse E (JNum (Finite 1000))
                    else extended_queryparse E (JNum (Finite 1000))),
      shouldParse = typeChecker E (JStr ''application/x-www-form-urlencoded'')\<rparr>" for x
  have u: "UrlencodedParser E (Some no_options)
      = (Inr (built JUndefined), [Deprecate ''undefined extended: provide extended option''])"
    by (simp add: UrlencodedParser_def Let_def js_or_def parser_default_limit no_options_def
        built_def)
  have t: "UrlencodedParser E (Some (no_options\<lparr>extended := JBool True\<rparr>))
      = (Inr (built (JBool True)), [])"
    by (simp add: UrlencodedParser_def Let_def js_or_def parser_default_limit no_options_def
        built_def)
  have f: "UrlencodedParser E (Some (no_options\<lparr>extended := JBool False\<rparr>))
      = (Inr (built (JBool False)), [])"
    by (simp add: UrlencodedParser_def Let_def js_or_def parser_default_limit no_options_def
        built_def)
  show "snd (UrlencodedParser E (Some no_options))
         = [Deprecate ''undefined extended: provide extended option'']
     \<and> map_sum id queryparse (fst (UrlencodedParser E (Some no_options)))
         = Inr (extended_queryparse E (JNum (Finite 1000)))
     \<and> extendedparser E no_options = Inr (extended_queryparse E (JNum (Finite 1000)))
     \<and> map_sum id parsedLimit (fst (UrlencodedParser E (Some no_options)))
         = Inr (bytes_parse E (JStr ''100kb''))
     \<and> snd (UrlencodedParser E (Some (no_options\<lparr>extended := JBool True\<rparr>))) = []
     \<and> map_sum id queryparse
           (fst (UrlencodedParser E (Some (no_options\<lparr>extended := JBool True\<rparr>))))
         = Inr (extended_queryparse E (JNum (Finite 1000)))
     \<and> snd (UrlencodedParser E (Some (no_options\<lparr>extended := JBool False\<rparr>))) = []
     \<and> map_sum id queryparse
           (fst (UrlencodedParser E (Some (no_options\<lparr>extended := JBool False\<rparr>))))
         = Inr (simple_queryparse E (JNum (Finite 1000)))
     \<and> simpleparser E (no_options\<lparr>extended := JBool False\<rparr>)
         = Inr (simple_queryparse E (JNum (Finite 1000)))"
    using strategy_selection_and_defaults [of E no_options "built JUndefined"
        "[Deprecate ''undefined extended: provide extended option'']"]
      strategy_selection_and_defaults [of E "no_options\<lparr>extended := JBool True\<rparr>"
        "built (JBool True)" "[]"]
      strategy_selection_and_defaults [of E "no_options\<lparr>extended := JBool False\<rparr>"
        "built (JBool False)" "[]"]
      u t f
    by (simp add: no_options_def built_def)
qed

subsection \<open>The eligibility checks\<close>

lemma createReader_already_parsed:
  "truthy (req_underscore_body req) \<Longrightarrow>
     createReader E self req =
       (with_placeholder req, [ContentTypeParse, Next None])"
  by (simp add: createReader_def checkParse_def Let_def)

lemma createReader_no_body:
  "\<not> truthy (req_underscore_body req) \<Longrightarrow>
   \<not> hasBody E (with_placeholder req) \<Longrightarrow>
     createReader E self req =
       (with_placeholder req,
        [ContentTypeParse, HasBody, Next None])"
  by (simp add: createReader_def checkParse_def Let_def)

lemma createReader_type_mismatch:
  "\<not> truthy (req_underscore_body req) \<Longrightarrow>
   hasBody E (with_placeholder req) \<Longrightarrow>
   \<not> truthy (shouldParse self (with_placeholder req)) \<Longrightarrow>
     createReader E self req =
       (with_placeholder req,
        [ContentTypeParse, HasBody, ShouldParse, Next None])"
  by (simp add: createReader_def checkParse_def Let_def)

lemma checkParse_eligible:
  "\<not> truthy (req_underscore_body r) \<Longrightarrow> hasBody E r \<Longrightarrow> truthy (shouldParse self r) \<Longrightarrow>
     checkParse E r self cs =
       (cs = ''utf-8'',
        [HasBody, ShouldParse] @
        (if cs = ''utf-8'' then []
         else [Next (Some (createError 415
                 (''unsupported charset '' @ [CHR 0x22] @ toUpperCase E cs @ [CHR 0x22])
                 (Some cs) ''charset.unsupported''))]))"
  by (simp add: checkParse_def)

text \<open>
  C8. The three checks run in the order of the claim and each one that fails ends the
  call with \<^verbatim>\<open>next()\<close> and no error, without the reader or a parser being called: a
  request whose flag \<^verbatim>\<open>_body\<close> is set is skipped before any other check is made; one
  without the flag that has no body is skipped after the body check alone; one that has
  a body and does not match the type is skipped after the type check. A request that
  passes all three reaches the charset test, whose outcome decides what
  \<^verbatim>\<open>checkParse\<close> returns.
\<close>

theorem eligibility_checks_in_order:
  "(truthy (req_underscore_body req) \<longrightarrow>
      createReader E self req =
        (with_placeholder req, [ContentTypeParse, Next None]))
   \<and> (\<not> truthy (req_underscore_body req)
        \<and> \<not> hasBody E (with_placeholder req) \<longrightarrow>
      createReader E self req =
        (with_placeholder req,
         [ContentTypeParse, HasBody, Next None]))
   \<and> (\<not> truthy (req_underscore_body req)
        \<and> hasBody E (with_placeholder req)
        \<and> \<not> truthy (shouldParse self (with_placeholder req))
      \<longrightarrow>
      createReader E self req =
        (with_placeholder req,
         [ContentTypeParse, HasBody, ShouldParse, Next None]))
   \<and> (\<not> truthy (req_underscore_body req)
        \<and> hasBody E (with_placeholder req)
        \<and> truthy (shouldParse self (with_placeholder req))
      \<longrightarrow>
      checkParse E (with_placeholder req) self cs =
        (cs = ''utf-8'',
         [HasBody, ShouldParse] @
         (if cs = ''utf-8'' then []
          else [Next (Some (createError 415
                  (''unsupported charset '' @ [CHR 0x22] @ toUpperCase E cs @ [CHR 0x22])
                  (Some cs) ''charset.unsupported''))])))"
  using createReader_already_parsed [of req E self] createReader_no_body [of req E self]
    createReader_type_mismatch [of req E self]
    checkParse_eligible [of "with_placeholder req" E self cs]
  by simp

theorem eligibility_checks_in_order_witness:
  "createReader (stand_in None True (JBool True) (Inr []) (JObj []))
      (default_config (stand_in None True (JBool True) (Inr []) (JObj [])))
      (form_request\<lparr>req_underscore_body := JBool True\<rparr>)
     = (form_request\<lparr>req_underscore_body := JBool True, req_body := JObj []\<rparr>,
        [ContentTypeParse, Next None])
   \<and> createReader (stand_in None False (JBool True) (Inr []) (JObj []))
      (default_config (stand_in None False (JBool True) (Inr []) (JObj []))) form_request
     = (form_request\<lparr>req_body := JObj []\<rparr>, [ContentTypeParse, HasBody, Next None])
   \<and> createReader (stand_in None True (JBool False) (Inr []) (JObj []))
      (default_config (stand_in None True (JBool False) (Inr []) (JObj []))) form_request
     = (form_request\<lparr>req_body := JObj []\<rparr>,
        [ContentTypeParse, HasBody, ShouldParse, Next None])
   \<and> checkParse (stand_in None True (JBool True) (Inr []) (JObj []))
      (form_request\<lparr>req_body := JObj []\<rparr>)
      (default_config (stand_in None True (JBool True) (Inr []) (JObj []))) ''utf-8''
     = (True, [HasBody, ShouldParse])
   \<and> checkParse (stand_in None True (JBool True) (Inr []) (JObj []))
      (form_request\<lparr>req_body := JObj []\<rparr>)
      (default_config (stand_in None True (JBool True) (Inr []) (JObj []))) ''latin1''
     = (False, [HasBody, ShouldParse,
          Next (Some \<lparr>status = 415, message = ''unsupported charset '' @ [CHR 0x22] @ ''LATIN1'' @ [CHR 0x22],
                      error_type = ''charset.unsupported'',
                      error_charset = Some ''latin1''\<rparr>)])"
  using eligibility_checks_in_order
      [of "form_request\<lparr>req_underscore_body := JBool True\<rparr>"
          "stand_in None True (JBool True) (Inr []) (JObj [])"
          "default_config (stand_in None True (JBool True) (Inr []) (JObj []))" "''utf-8''"]
    eligibility_checks_in_order
      [of form_request "stand_in None False (JBool True) (Inr []) (JObj [])"
          "default_config (stand_in None False (JBool True) (Inr []) (JObj []))" "''utf-8''"]
    eligibility_checks_in_order
      [of form_request "stand_in None True (JBool False) (Inr []) (JObj [])"
          "default_config (stand_in None True (JBool False) (Inr []) (JObj []))" "''utf-8''"]
    eligibility_checks_in_order
      [of form_request "stand_in None True (JBool True) (Inr []) (JObj [])"
          "default_config (stand_in None True (JBool True) (Inr []) (JObj []))" "''utf-8''"]
    eligibility_checks_in_order
      [of form_request "stand_in None True (JBool True) (Inr []) (JObj [])"
          "default_config (stand_in None True (JBool True) (Inr []) (JObj []))" "''latin1''"]
  by (simp add: form_request_def stand_in_def default_config_def typeChecker_def js_or_def
      createError_def ascii_upper_def)

subsection \<open>The body field on a skip\<close>

lemma placeholder_truthy: "truthy (req_body req) \<Longrightarrow> with_placeholder req = req"
  by (simp add: js_or_def)

lemma placeholder_unset:
  "req_body req = JUndefined \<Longrightarrow>
     with_placeholder req = req\<lparr>req_body := JObj []\<rparr>"
  by (simp add: js_or_def)

lemma createReader_skip:
  assumes "truthy (req_underscore_body req)
         \<or> \<not> hasBody E (with_placeholder req)
         \<or> \<not> truthy (shouldParse self (with_placeholder req))"
  shows "fst (createReader E self req) = with_placeholder req"
    and "snd (createReader E self req) = [ContentTypeParse, Next None]
       \<or> snd (createReader E self req) = [ContentTypeParse, HasBody, Next None]
       \<or> snd (createReader E self req) = [ContentTypeParse, HasBody, ShouldParse, Next None]"
  using assms by (auto simp: createReader_def checkParse_def Let_def)

text \<open>
  C6, as amended. On a request whose flag \<^verbatim>\<open>_body\<close> is set the middleware calls
  \<^verbatim>\<open>next()\<close> with no error and nothing else, and a truthy body field is left as it
  is. On every eligibility skip (flag set, no body, or type mismatch) a body field that
  was not set becomes the empty object, a truthy body field is left as it is, and the
  call ends with \<^verbatim>\<open>next()\<close> and no error.
\<close>

theorem existing_body_kept:
  "(truthy (req_underscore_body req) \<longrightarrow>
      snd (createReader E self req) = [ContentTypeParse, Next None]
    \<and> (truthy (req_body req) \<longrightarrow> fst (createReader E self req) = req))
   \<and> (truthy (req_underscore_body req)
        \<or> \<not> hasBody E (with_placeholder req)
        \<or> \<not> truthy (shouldParse self (with_placeholder req))
      \<longrightarrow>
        (req_body req = JUndefined \<longrightarrow>
           fst (createReader E self req) = req\<lparr>req_body := JObj []\<rparr>)
      \<and> (truthy (req_body req) \<longrightarrow> fst (createReader E self req) = req)
      \<and> (snd (createReader E self req) = [ContentTypeParse, Next None]
         \<or> snd (createReader E self req) = [ContentTypeParse, HasBody, Next None]
         \<or> snd (createReader E self req) = [ContentTypeParse, HasBody, ShouldParse, Next None]))"
proof (intro conjI impI)
  assume flag: "truthy (req_underscore_body req)"
  show "snd (createReader E self req) = [ContentTypeParse, Next None]"
    using flag by (simp add: createReader_already_parsed)
  show "fst (createReader E self req) = req" if "truthy (req_body req)"
    using flag that by (simp add: createReader_already_parsed placeholder_truthy)
next
  assume skip: "truthy (req_underscore_body req)
        \<or> \<not> hasBody E (with_placeholder req)
        \<or> \<not> truthy (shouldParse self (with_placeholder req))"
  show "fst (createReader E self req) = req\<lparr>req_body := JObj []\<rparr>"
    if "req_body req = JUndefined"
    using createReader_skip(1) [OF skip] placeholder_unset [OF that] by simp
  show "fst (createReader E self req) = req" if "truthy (req_body req)"
    using createReader_skip(1) [OF skip] placeholder_truthy [OF that] by simp
  show "snd (createReader E self req) = [ContentTypeParse, Next None]
         \<or> snd (createReader E self req) = [ContentTypeParse, HasBody, Next None]
         \<or> snd (createReader E self req) = [ContentTypeParse, HasBody, ShouldParse, Next None]"
    by (rule createReader_skip(2) [OF skip])
qed

theorem existing_body_kept_witness:
  "truthy (req_underscore_body
      (form_request\<lparr>req_body := JObj [(''a'', JStr ''1'')], req_underscore_body := JBool True\<rparr>))
   \<and> truthy (req_body
      (form_request\<lparr>req_body := JObj [(''a'', JStr ''1'')], req_underscore_body := JBool True\<rparr>))
   \<and> createReader (stand_in None True (JBool True) (Inr ''b=2'') (JObj [(''b'', JStr ''2'')]))
        (default_config (stand_in None True (JBool True) (Inr ''b=2'') (JObj [(''b'', JStr ''2'')])))
        (form_request\<lparr>req_body := JObj [(''a'', JStr ''1'')], req_underscore_body := JBool True\<rparr>)
      = (form_request\<lparr>req_body := JObj [(''a'', JStr ''1'')], req_underscore_body := JBool True\<rparr>,
         [ContentTypeParse, Next None])
   \<and> req_body form_request = JUndefined
   \<and> createReader (stand_in None False (JBool True) (Inr ''b=2'') (JObj [(''b'', JStr ''2'')]))
        (default_config (stand_in None False (JBool True) (Inr ''b=2'') (JObj [(''b'', JStr ''2'')])))
        form_request
      = (form_request\<lparr>req_body := JObj []\<rparr>, [ContentTypeParse, HasBody, Next None])"
proof -
  have a: "createReader (stand_in None True (JBool True) (Inr ''b=2'') (JObj [(''b'', JStr ''2'')]))
        (default_config (stand_in None True (JBool True) (Inr ''b=2'') (JObj [(''b'', JStr ''2'')])))
        (form_request\<lparr>req_body := JObj [(''a'', JStr ''1'')], req_underscore_body := JBool True\<rparr>)
      = (form_request\<lparr>req_body := JObj [(''a'', JStr ''1'')], req_underscore_body := JBool True\<rparr>,
         [ContentTypeParse, Next None])"
    by (simp add: createReader_already_parsed js_or_def form_request_def)
  have b: "createReader (stand_in None False (JBool True) (Inr ''b=2'') (JObj [(''b'', JStr ''2'')]))
        (default_config (stand_in None False (JBool True) (Inr ''b=2'') (JObj [(''b'', JStr ''2'')])))
        form_request
      = (form_request\<lparr>req_body := JObj []\<rparr>, [ContentTypeParse, HasBody, Next None])"
    by (simp add: createReader_no_body js_or_def form_request_def stand_in_def)
  show ?thesis
    using existing_body_kept
      [of "form_request\<lparr>req_body := JObj [(''a'', JStr ''1'')], req_underscore_body := JBool True\<rparr>"
          "stand_in None True (JBool True) (Inr ''b=2'') (JObj [(''b'', JStr ''2'')])"
          "default_config (stand_in None True (JBool True) (Inr ''b=2'') (JObj [(''b'', JStr ''2'')]))"]
      existing_body_kept
      [of form_request
          "stand_in None False (JBool True) (Inr ''b=2'') (JObj [(''b'', JStr ''2'')])"
          "default_config (stand_in None False (JBool True) (Inr ''b=2'') (JObj [(''b'', JStr ''2'')]))"]
      a b
    by (simp add: form_request_def)
qed

text \<open>
  The claim as stated, for every request that carries a decoded body, fails when that
  body is a falsy value: the placeholder is assigned before the flag is tested, so the
  empty string that an earlier parser stored is replaced by the empty object.
\<close>

theorem falsy_body_replaced_counterexample:
  "truthy (req_underscore_body
      (form_request\<lparr>req_body := JStr [], req_underscore_body := JBool True\<rparr>))
   \<and> req_body (form_request\<lparr>req_body := JStr [], req_underscore_body := JBool True\<rparr>) = JStr []
   \<and> createReader (stand_in None True (JBool True) (Inr ''b=2'') (JObj [(''b'', JStr ''2'')]))
        (default_config (stand_in None True (JBool True) (Inr ''b=2'') (JObj [(''b'', JStr ''2'')])))
        (form_request\<lparr>req_body := JStr [], req_underscore_body := JBool True\<rparr>)
      = (form_request\<lparr>req_body := JObj [], req_underscore_body := JBool True\<rparr>,
         [ContentTypeParse, Next None])"
  by (simp add: createReader_already_parsed js_or_def form_request_def)

subsection \<open>The charset gate\<close>

lemma getCharset_cases:
  "contentType_parse E req = None \<Longrightarrow> getCharset E req = None"
  "contentType_parse E req = Some ct \<Longrightarrow> parameters ct ''charset'' = None \<Longrightarrow>
     getCharset E req = Some (toLowerCase E [])"
  "contentType_parse E req = Some ct \<Longrightarrow> parameters ct ''charset'' = Some raw \<Longrightarrow>
     getCharset E req = Some (toLowerCase E raw)"
  by (simp_all add: getCharset_def)

lemma createReader_unsupported_charset:
  assumes "\<not> truthy (req_underscore_body req)"
    and "hasBody E (with_placeholder req)"
    and "truthy (shouldParse self (with_placeholder req))"
    and "string_or (getCharset E req) ''utf-8'' = cs" and "cs \<noteq> ''utf-8''"
  shows "createReader E self req =
     (with_placeholder req,
      [ContentTypeParse, HasBody, ShouldParse,
       Next (Some (createError 415
                 (''unsupported charset '' @ [CHR 0x22] @ toUpperCase E cs @ [CHR 0x22])
                 (Some cs) ''charset.unsupported''))])"
  using assms by (simp add: createReader_def checkParse_def Let_def)

lemma createReader_reads:
  assumes "\<not> truthy (req_underscore_body req)"
    and "hasBody E (with_placeholder req)"
    and "truthy (shouldParse self (with_placeholder req))"
    and "string_or (getCharset E req) ''utf-8'' = ''utf-8''"
  shows "createReader E self req =
     (fst (Reader E (with_placeholder req)
             (\<lambda>payload. if payload \<noteq> [] then queryparse self payload
                        else (Inr (JObj []), []))
             (utf8_reader_options self)),
      [ContentTypeParse, HasBody, ShouldParse,
       ReaderCall (utf8_reader_options self)]
      @ snd (Reader E (with_placeholder req)
             (\<lambda>payload. if payload \<noteq> [] then queryparse self payload
                        else (Inr (JObj []), []))
             (utf8_reader_options self)))"
  using assms by (simp add: createReader_def checkParse_def Let_def split: prod.splits)

text \<open>
  C2, as amended. Charset resolution is total: where \<^verbatim>\<open>contentType.parse\<close> throws
  (header absent or unparsable) \<^verbatim>\<open>getCharset\<close> returns \<^verbatim>\<open>undefined\<close> and the
  resolved charset is \<^verbatim>\<open>utf-8\<close>; otherwise \<^verbatim>\<open>getCharset\<close> returns the engine's
  lower case of the charset parameter (of the empty string when there is none). For a
  request that passes the three eligibility checks, with \<open>cs\<close> its resolved charset
  \<^verbatim>\<open>getCharset(req) || 'utf-8'\<close>: when \<open>cs\<close> is not \<^verbatim>\<open>utf-8\<close> the call ends with
  \<^verbatim>\<open>next(err)\<close>, the error having status 415, kind \<^verbatim>\<open>charset.unsupported\<close>, the
  charset \<open>cs\<close> as its field and the engine's upper case of \<open>cs\<close> between double quotes
  in its message, and the reader is not called; when \<open>cs\<close> is \<^verbatim>\<open>utf-8\<close> the reader is
  called.
\<close>

theorem charset_gate:
  "(contentType_parse E req = None \<longrightarrow>
      getCharset E req = None \<and> string_or (getCharset E req) ''utf-8'' = ''utf-8'')
   \<and> (contentType_parse E req = Some ct \<and> parameters ct ''charset'' = Some raw \<longrightarrow>
      getCharset E req = Some (toLowerCase E raw))
   \<and> (contentType_parse E req = Some ct \<and> parameters ct ''charset'' = None \<longrightarrow>
      getCharset E req = Some (toLowerCase E []))
   \<and> (\<not> truthy (req_underscore_body req)
      \<and> hasBody E (with_placeholder req)
      \<and> truthy (shouldParse self (with_placeholder req))
      \<and> string_or (getCharset E req) ''utf-8'' = cs
      \<longrightarrow>
        (cs \<noteq> ''utf-8'' \<longrightarrow>
           createReader E self req =
             (with_placeholder req,
              [ContentTypeParse, HasBody, ShouldParse,
               Next (Some \<lparr>status = 415,
                  message = ''unsupported charset '' @ [CHR 0x22] @ toUpperCase E cs @ [CHR 0x22],
                  error_type = ''charset.unsupported'',
                  error_charset = Some cs\<rparr>)]))
      \<and> (cs = ''utf-8'' \<longrightarrow>
           take 4 (snd (createReader E self req)) =
             [ContentTypeParse, HasBody, ShouldParse,
              ReaderCall (utf8_reader_options self)]))"
proof (intro conjI impI; (elim conjE)?)
  show "getCharset E req = None" if "contentType_parse E req = None"
    using that by (rule getCharset_cases(1))
  show "string_or (getCharset E req) ''utf-8'' = ''utf-8''" if "contentType_parse E req = None"
    using getCharset_cases(1) [OF that] by simp
  show "getCharset E req = Some (toLowerCase E raw)"
    if "contentType_parse E req = Some ct" "parameters ct ''charset'' = Some raw"
    using that by (rule getCharset_cases(3))
  show "getCharset E req = Some (toLowerCase E [])"
    if "contentType_parse E req = Some ct" "parameters ct ''charset'' = None"
    using that by (rule getCharset_cases(2))
next
  assume e: "\<not> truthy (req_underscore_body req)"
      "hasBody E (with_placeholder req)"
      "truthy (shouldParse self (with_placeholder req))"
    and cs: "string_or (getCharset E req) ''utf-8'' = cs"
    and bad: "cs \<noteq> ''utf-8''"
  from createReader_unsupported_charset [OF e cs bad]
  show "createReader E self req =
             (with_placeholder req,
              [ContentTypeParse, HasBody, ShouldParse,
               Next (Some \<lparr>status = 415,
                  message = ''unsupported charset '' @ [CHR 0x22] @ toUpperCase E cs @ [CHR 0x22],
                  error_type = ''charset.unsupported'',
                  error_charset = Some cs\<rparr>)])"
    by (simp add: createError_def)
next
  assume e: "\<not> truthy (req_underscore_body req)"
      "hasBody E (with_placeholder req)"
      "truthy (shouldParse self (with_placeholder req))"
    and cs: "string_or (getCharset E req) ''utf-8'' = cs"
    and ok: "cs = ''utf-8''"
  from createReader_reads [OF e] cs ok
  show "take 4 (snd (createReader E self req)) =
             [ContentTypeParse, HasBody, ShouldParse,
              ReaderCall (utf8_reader_options self)]"
    by simp
qed

theorem charset_gate_witness:
  "string_or (getCharset (stand_in None True (JBool True) (Inr ''a=1'') (JObj [])) form_request)
      ''utf-8'' = ''utf-8''
   \<and> getCharset
        (stand_in (Some \<lparr>media_type = ''application/x-www-form-urlencoded'',
                         parameters = [''charset'' \<mapsto> ''Latin1'']\<rparr>)
           True (JBool True) (Inr ''a=1'') (JObj []))
        form_request = Some ''latin1''
   \<and> createReader
        (stand_in (Some \<lparr>media_type = ''application/x-www-form-urlencoded'',
                         parameters = [''charset'' \<mapsto> ''Latin1'']\<rparr>)
           True (JBool True) (Inr ''a=1'') (JObj []))
        (default_config
          (stand_in (Some \<lparr>media_type = ''application/x-www-form-urlencoded'',
                           parameters = [''charset'' \<mapsto> ''Latin1'']\<rparr>)
             True (JBool True) (Inr ''a=1'') (JObj [])))
        form_request
      = (form_request\<lparr>req_body := JObj []\<rparr>,
         [ContentTypeParse, HasBody, ShouldParse,
          Next (Some \<lparr>status = 415,
             message = ''unsupported charset '' @ [CHR 0x22] @ ''LATIN1'' @ [CHR 0x22],
             error_type = ''charset.unsupported'', error_charset = Some ''latin1''\<rparr>)])
   \<and> take 4 (snd (createReader
        (stand_in (Some \<lparr>media_type = ''application/x-www-form-urlencoded'',
                         parameters = [''charset'' \<mapsto> ''UTF-8'']\<rparr>)
           True (JBool True) (Inr ''a=1'') (JObj []))
        (default_config
          (stand_in (Some \<lparr>media_type = ''application/x-www-form-urlencoded'',
                           parameters = [''charset'' \<mapsto> ''UTF-8'']\<rparr>)
             True (JBool True) (Inr ''a=1'') (JObj [])))
        form_request))
      = [ContentTypeParse, HasBody, ShouldParse,
         ReaderCall \<lparr>encoding = ''utf-8'', reader_inflate = True,
           reader_limit = JNum (Finite 102400), reader_verify = JBool False\<rparr>]"
proof -
  define E0 where "E0 = stand_in None True (JBool True) (Inr ''a=1'') (JObj [])"
  define ctL where "ctL = \<lparr>media_type = ''application/x-www-form-urlencoded'',
                         parameters = [''charset'' \<mapsto> ''Latin1'']\<rparr>"
  define EL where "EL = stand_in (Some ctL) True (JBool True) (Inr ''a=1'') (JObj [])"
  define ctU where "ctU = \<lparr>media_type = ''application/x-www-form-urlencoded'',
                         parameters = [''charset'' \<mapsto> ''UTF-8'']\<rparr>"
  define EU where "EU = stand_in (Some ctU) True (JBool True) (Inr ''a=1'') (JObj [])"
  have lower: "toLowerCase EL ''Latin1'' = ''latin1''" "toLowerCase EU ''UTF-8'' = ''utf-8''"
    and upper: "toUpperCase EL ''latin1'' = ''LATIN1''"
    by (simp_all add: EL_def EU_def stand_in_def ascii_lower_def ascii_upper_def)
  have none: "string_or (getCharset E0 form_request) ''utf-8'' = ''utf-8''"
    using charset_gate [of E0 form_request] by (simp add: E0_def stand_in_def)
  have gL: "getCharset EL form_request = Some ''latin1''"
    using charset_gate [of EL form_request ctL "''Latin1''"] lower
    by (simp add: EL_def ctL_def stand_in_def)
  have gU: "getCharset EU form_request = Some ''utf-8''"
    using charset_gate [of EU form_request ctU "''UTF-8''"] lower
    by (simp add: EU_def ctU_def stand_in_def)
  have bad: "createReader EL (default_config EL) form_request
      = (form_request\<lparr>req_body := JObj []\<rparr>,
         [ContentTypeParse, HasBody, ShouldParse,
          Next (Some \<lparr>status = 415,
             message = ''unsupported charset '' @ [CHR 0x22] @ ''LATIN1'' @ [CHR 0x22],
             error_type = ''charset.unsupported'', error_charset = Some ''latin1''\<rparr>)])"
    using charset_gate [of EL form_request ctL "''Latin1''" "default_config EL" "''latin1''"]
      gL upper
    by (simp add: EL_def stand_in_def default_config_def form_request_def typeChecker_def
        js_or_def)
  have ok: "take 4 (snd (createReader EU (default_config EU) form_request))
      = [ContentTypeParse, HasBody, ShouldParse,
         ReaderCall \<lparr>encoding = ''utf-8'', reader_inflate = True,
           reader_limit = JNum (Finite 102400), reader_verify = JBool False\<rparr>]"
    using charset_gate [of EU form_request ctU "''UTF-8''" "default_config EU" "''utf-8''"] gU
    by (simp add: EU_def stand_in_def default_config_def form_request_def typeChecker_def
        js_or_def)
  show ?thesis
    using none gL bad ok unfolding E0_def EL_def EU_def ctL_def ctU_def by simp
qed

text \<open>
  The claim as stated, for every request, fails on a request that does not pass the
  eligibility checks: with the charset \<^verbatim>\<open>latin1\<close> and a media type that does not
  match, the call ends with \<^verbatim>\<open>next()\<close> and no error.
\<close>

theorem ineligible_charset_counterexample:
  "string_or (getCharset
        (stand_in (Some \<lparr>media_type = ''application/json'',
                         parameters = [''charset'' \<mapsto> ''latin1'']\<rparr>)
           True (JBool False) (Inr ''{}'') (JObj []))
        (form_request\<lparr>req_headers := [(''content-type'', ''application/json; charset=latin1'')]\<rparr>))
      ''utf-8'' = ''latin1''
   \<and> createReader
        (stand_in (Some \<lparr>media_type = ''application/json'',
                         parameters = [''charset'' \<mapsto> ''latin1'']\<rparr>)
           True (JBool False) (Inr ''{}'') (JObj []))
        (default_config
          (stand_in (Some \<lparr>media_type = ''application/json'',
                           parameters = [''charset'' \<mapsto> ''latin1'']\<rparr>)
             True (JBool False) (Inr ''{}'') (JObj [])))
        (form_request\<lparr>req_headers := [(''content-type'', ''application/json; charset=latin1'')]\<rparr>)
      = (form_request\<lparr>req_headers := [(''content-type'', ''application/json; charset=latin1'')],
            req_body := JObj []\<rparr>,
         [ContentTypeParse, HasBody, ShouldParse, Next None])"
  by (simp add: createReader_def checkParse_def getCharset_def stand_in_def default_config_def
      form_request_def typeChecker_def js_or_def ascii_lower_def)

subsection \<open>The empty body\<close>

lemma parameterCount_empty: "parameterCount [] lmt = Some 0"
  by (simp add: parameterCount_eq)

lemma createReader_Reader:
  assumes "\<not> truthy (req_underscore_body req)"
    and "hasBody E (with_placeholder req)"
    and "truthy (shouldParse self (with_placeholder req))"
    and "string_or (getCharset E req) ''utf-8'' = ''utf-8''"
    and "Reader E (with_placeholder req)
             (\<lambda>payload. if payload \<noteq> [] then queryparse self payload
                        else (Inr (JObj []), []))
             (utf8_reader_options self) = (r, ev)"
  shows "createReader E self req =
     (r, [ContentTypeParse, HasBody, ShouldParse,
          ReaderCall (utf8_reader_options self)] @ ev)"
  using createReader_reads [OF assms(1-4)] assms(5) by simp

text \<open>
  C5, as amended. For a request that passes the checks and whose acquired body is the
  empty string, the middleware stores the empty object on the request and calls
  \<^verbatim>\<open>next()\<close>; apart from the reader no collaborator is called after the checks, so no
  key-value parser runs. This fast path is the parse callback of the middleware, not the
  decoder: a decoder applied to the empty string counts no separator and calls its
  parser on the empty string, with the array limit 100 in the extended case, and returns
  what the parser returns.
\<close>

theorem empty_body_fast_path:
  "(\<not> truthy (req_underscore_body req)
      \<and> hasBody E (with_placeholder req)
      \<and> truthy (shouldParse self (with_placeholder req))
      \<and> string_or (getCharset E req) ''utf-8'' = ''utf-8''
      \<and> acquire E (with_placeholder req)
            (utf8_reader_options self) = Inr []
      \<longrightarrow>
      createReader E self req =
        (req\<lparr>req_body := JObj []\<rparr>,
         [ContentTypeParse, HasBody, ShouldParse,
          ReaderCall (utf8_reader_options self),
          Next None]))
   \<and> extended_queryparse E lmt [] =
        (Inr (qs_parse E [] \<lparr>allowPrototypes = True, arrayLimit = 100,
                              depth = PosInfinity, qs_parameterLimit = lmt\<rparr>),
         [QsParse [] \<lparr>allowPrototypes = True, arrayLimit = 100,
                       depth = PosInfinity, qs_parameterLimit = lmt\<rparr>])
   \<and> simple_queryparse E lmt [] =
        (Inr (querystring_parse E [] JUndefined JUndefined \<lparr>maxKeys = lmt\<rparr>),
         [QuerystringParse [] JUndefined JUndefined \<lparr>maxKeys = lmt\<rparr>])"
proof (intro conjI impI; (elim conjE)?)
  assume e: "\<not> truthy (req_underscore_body req)"
      "hasBody E (with_placeholder req)"
      "truthy (shouldParse self (with_placeholder req))"
      "string_or (getCharset E req) ''utf-8'' = ''utf-8''"
    and a: "acquire E (with_placeholder req)
            (utf8_reader_options self) = Inr []"
  have "Reader E (with_placeholder req)
             (\<lambda>payload. if payload \<noteq> [] then queryparse self payload
                        else (Inr (JObj []), []))
             (utf8_reader_options self)
        = (req\<lparr>req_body := JObj []\<rparr>, [Next None])"
    using a by (simp add: Reader_def)
  from createReader_Reader [OF e this]
  show "createReader E self req =
        (req\<lparr>req_body := JObj []\<rparr>,
         [ContentTypeParse, HasBody, ShouldParse,
          ReaderCall (utf8_reader_options self),
          Next None])"
    by simp
next
  show "extended_queryparse E lmt [] =
        (Inr (qs_parse E [] \<lparr>allowPrototypes = True, arrayLimit = 100,
                              depth = PosInfinity, qs_parameterLimit = lmt\<rparr>),
         [QsParse [] \<lparr>allowPrototypes = True, arrayLimit = 100,
                       depth = PosInfinity, qs_parameterLimit = lmt\<rparr>])"
    by (simp add: extended_queryparse_def parameterCount_empty Let_def)
  show "simple_queryparse E lmt [] =
        (Inr (querystring_parse E [] JUndefined JUndefined \<lparr>maxKeys = lmt\<rparr>),
         [QuerystringParse [] JUndefined JUndefined \<lparr>maxKeys = lmt\<rparr>])"
    by (simp add: simple_queryparse_def parameterCount_empty Let_def)
qed

theorem empty_body_fast_path_witness:
  "createReader (stand_in None True (JBool True) (Inr []) (JObj [(''x'', JStr ''y'')]))
      (default_config (stand_in None True (JBool True) (Inr []) (JObj [(''x'', JStr ''y'')])))
      form_request
     = (form_request\<lparr>req_body := JObj []\<rparr>,
        [ContentTypeParse, HasBody, ShouldParse,
         ReaderCall \<lparr>encoding = ''utf-8'', reader_inflate = True,
           reader_limit = JNum (Finite 102400), reader_verify = JBool False\<rparr>,
         Next None])"
  using empty_body_fast_path
      [of form_request "stand_in None True (JBool True) (Inr []) (JObj [(''x'', JStr ''y'')])"
          "default_config (stand_in None True (JBool True) (Inr []) (JObj [(''x'', JStr ''y'')]))"]
  by (simp add: stand_in_def default_config_def form_request_def typeChecker_def js_or_def
      getCharset_def)

text \<open>
  The second half of the claim as stated fails: the decoders that the constructors build
  call the external parser when applied to the empty string.
\<close>

theorem decoder_empty_string_counterexample:
  "simpleparser (stand_in None True (JBool True) (Inr []) (JObj []))
      (no_options\<lparr>extended := JBool False\<rparr>)
     = Inr (simple_queryparse (stand_in None True (JBool True) (Inr []) (JObj []))
              (JNum (Finite 1000)))
   \<and> snd (simple_queryparse (stand_in None True (JBool True) (Inr []) (JObj []))
              (JNum (Finite 1000)) [])
     = [QuerystringParse [] JUndefined JUndefined \<lparr>maxKeys = JNum (Finite 1000)\<rparr>]
   \<and> extendedparser (stand_in None True (JBool True) (Inr []) (JObj [])) no_options
     = Inr (extended_queryparse (stand_in None True (JBool True) (Inr []) (JObj []))
              (JNum (Finite 1000)))
   \<and> snd (extended_queryparse (stand_in None True (JBool True) (Inr []) (JObj []))
              (JNum (Finite 1000)) [])
     = [QsParse [] \<lparr>allowPrototypes = True, arrayLimit = 100, depth = PosInfinity,
                     qs_parameterLimit = JNum (Finite 1000)\<rparr>]"
  by (simp add: parser_default_limit no_options_def simple_queryparse_def
      extended_queryparse_def parameterCount_empty Let_def)

subsection \<open>No attachment on an error\<close>

lemma decoder_events:
  "Next x \<notin> set (snd (extended_queryparse E lmt b))"
  "Next x \<notin> set (snd (simple_queryparse E lmt b))"
  by (simp_all add: extended_queryparse_def simple_queryparse_def Let_def split: option.splits)

lemma parser_builds:
  "extendedparser E opts = Inr qp \<Longrightarrow> \<exists>lmt. qp = extended_queryparse E lmt"
  "simpleparser E opts = Inr qp \<Longrightarrow> \<exists>lmt. qp = simple_queryparse E lmt"
  by (auto simp: extendedparser_def simpleparser_def Let_def simp del: ToInt32.simps
      split: if_splits)

lemma built_queryparse:
  assumes "fst (UrlencodedParser E options) = Inr self"
  shows "\<exists>lmt. queryparse self = extended_queryparse E lmt
             \<or> queryparse self = simple_queryparse E lmt"
proof -
  define opts where "opts = (case options of None \<Rightarrow> no_options | Some given \<Rightarrow> given)"
  have "(if extended opts \<noteq> JBool False then extendedparser E opts
        else simpleparser E opts) = Inr (queryparse self)"
    using assms unfolding UrlencodedParser_def Let_def opts_def [symmetric]
    by (auto split: if_splits sum.splits)
  then show ?thesis
    using parser_builds [of E opts "queryparse self"] by (auto split: if_splits)
qed

lemma built_queryparse_events:
  assumes "fst (UrlencodedParser E options) = Inr self"
  shows "Next x \<notin> set (snd (queryparse self b))"
  using built_queryparse [OF assms] decoder_events [of x E _ b] by auto

lemma Reader_error_keeps_request:
  assumes "\<And>payload x. Next x \<notin> set (snd (parse payload))"
    and "Next (Some err) \<in> set (snd (Reader E r parse ropts))"
  shows "fst (Reader E r parse ropts) = r"
proof (cases "acquire E r ropts")
  case (Inl e)
  then show ?thesis by (simp add: Reader_def)
next
  case (Inr payload)
  obtain res ev where p: "parse payload = (res, ev)" by (cases "parse payload")
  with assms(1) [of _ payload] have ev: "Next x \<notin> set ev" for x by simp
  show ?thesis
  proof (cases res)
    case (Inl e)
    with Inr p show ?thesis by (simp add: Reader_def)
  next
    case decoded: (Inr d)
    with Inr p have "snd (Reader E r parse ropts) = ev @ [Next None]"
      by (simp add: Reader_def)
    with assms(2) ev show ?thesis by simp
  qed
qed

lemma createReader_cases:
  "(createReader E self req =
       (with_placeholder req,
        ContentTypeParse # snd (checkParse E (with_placeholder req)
           self (string_or (getCharset E req) ''utf-8'')))
     \<and> \<not> fst (checkParse E (with_placeholder req)
           self (string_or (getCharset E req) ''utf-8'')))
   \<or> (\<not> truthy (req_underscore_body req)
      \<and> hasBody E (with_placeholder req)
      \<and> truthy (shouldParse self (with_placeholder req))
      \<and> string_or (getCharset E req) ''utf-8'' = ''utf-8'')"
  by (auto simp: createReader_def checkParse_def Let_def)

text \<open>
  C3. For a middleware built by the constructor: whenever a call ends with
  \<^verbatim>\<open>next(err)\<close>, the request after the call is the request before it with the
  placeholder assignment \<^verbatim>\<open>req.body = req.body || {}\<close> and nothing else, so a body
  field that was falsy holds the empty object and a truthy one is untouched; no decoded
  value is stored. The failures of the reader and of the parameter count are such calls:
  on a request that passes the checks, an error of the acquisition, and an error of the
  decoder on a non-empty body, each go to \<^verbatim>\<open>next\<close> with the request left so. (The
  unsupported charset is the case of C2.)
\<close>

theorem no_partial_attachment:
  "(fst (UrlencodedParser E options) = Inr self
      \<and> Next (Some err) \<in> set (snd (createReader E self req)) \<longrightarrow>
        fst (createReader E self req) = with_placeholder req
      \<and> (\<not> truthy (req_body req) \<longrightarrow> req_body (fst (createReader E self req)) = JObj [])
      \<and> (truthy (req_body req) \<longrightarrow> fst (createReader E self req) = req))
   \<and> (\<not> truthy (req_underscore_body req)
      \<and> hasBody E (with_placeholder req)
      \<and> truthy (shouldParse self (with_placeholder req))
      \<and> string_or (getCharset E req) ''utf-8'' = ''utf-8'' \<longrightarrow>
        (acquire E (with_placeholder req)
            (utf8_reader_options self) = Inl err
         \<longrightarrow> createReader E self req =
             (with_placeholder req,
              [ContentTypeParse, HasBody, ShouldParse,
               ReaderCall (utf8_reader_options self),
               Next (Some err)]))
      \<and> (acquire E (with_placeholder req)
            (utf8_reader_options self) = Inr payload
         \<and> payload \<noteq> [] \<and> queryparse self payload = (Inl err, [])
         \<longrightarrow> createReader E self req =
             (with_placeholder req,
              [ContentTypeParse, HasBody, ShouldParse,
               ReaderCall (utf8_reader_options self),
               Next (Some err)])))"
proof (intro conjI impI; (elim conjE)?)
  assume built: "fst (UrlencodedParser E options) = Inr self"
    and err: "Next (Some err) \<in> set (snd (createReader E self req))"
  have parse: "Next x \<notin> set (snd (if payload \<noteq> [] then queryparse self payload
                        else (Inr (JObj []), [])))" for payload x
    using built_queryparse_events [OF built] by simp
  show kept: "fst (createReader E self req) = with_placeholder req"
    using createReader_cases [of E self req]
  proof (elim disjE conjE)
    assume "createReader E self req =
       (with_placeholder req,
        ContentTypeParse # snd (checkParse E (with_placeholder req)
           self (string_or (getCharset E req) ''utf-8'')))"
    then show ?thesis by simp
  next
    assume e: "\<not> truthy (req_underscore_body req)"
      "hasBody E (with_placeholder req)"
      "truthy (shouldParse self (with_placeholder req))"
      "string_or (getCharset E req) ''utf-8'' = ''utf-8''"
    note r = createReader_reads [OF e]
    from err have "Next (Some err) \<in> set (snd (Reader E
             (with_placeholder req)
             (\<lambda>payload. if payload \<noteq> [] then queryparse self payload
                        else (Inr (JObj []), []))
             (utf8_reader_options self)))"
      unfolding r by simp
    from Reader_error_keeps_request [OF parse this] show ?thesis
      unfolding r by simp
  qed
  show "req_body (fst (createReader E self req)) = JObj []" if "\<not> truthy (req_body req)"
    using kept that by (simp add: js_or_def)
  show "fst (createReader E self req) = req" if "truthy (req_body req)"
    using kept placeholder_truthy [OF that] by simp
next
  assume e: "\<not> truthy (req_underscore_body req)"
      "hasBody E (with_placeholder req)"
      "truthy (shouldParse self (with_placeholder req))"
      "string_or (getCharset E req) ''utf-8'' = ''utf-8''"
    and a: "acquire E (with_placeholder req)
            (utf8_reader_options self) = Inl err"
  show "createReader E self req =
             (with_placeholder req,
              [ContentTypeParse, HasBody, ShouldParse,
               ReaderCall (utf8_reader_options self),
               Next (Some err)])"
    unfolding createReader_reads [OF e] using a by (simp add: Reader_def)
next
  assume e: "\<not> truthy (req_underscore_body req)"
      "hasBody E (with_placeholder req)"
      "truthy (shouldParse self (with_placeholder req))"
      "string_or (getCharset E req) ''utf-8'' = ''utf-8''"
    and a: "acquire E (with_placeholder req)
            (utf8_reader_options self) = Inr payload"
    and p: "payload \<noteq> []" "queryparse self payload = (Inl err, [])"
  show "createReader E self req =
             (with_placeholder req,
              [ContentTypeParse, HasBody, ShouldParse,
               ReaderCall (utf8_reader_options self),
               Next (Some err)])"
    unfolding createReader_reads [OF e] using a p by (simp add: Reader_def)
qed

theorem no_partial_attachment_witness:
  "fst (UrlencodedParser
          (stand_in None True (JBool True) (Inr ''a=1&b=2&c=3'') (JObj [(''a'', JStr ''1'')]))
          (Some (no_options\<lparr>parameterLimit := JNum (Finite 2)\<rparr>)))
     = Inr ((default_config
          (stand_in None True (JBool True) (Inr ''a=1&b=2&c=3'') (JObj [(''a'', JStr ''1'')])))
        \<lparr>parameterLimit := JNum (Finite 2),
         queryparse := extended_queryparse
           (stand_in None True (JBool True) (Inr ''a=1&b=2&c=3'') (JObj [(''a'', JStr ''1'')]))
           (JNum (Finite 2))\<rparr>)
   \<and> createReader
        (stand_in None True (JBool True) (Inr ''a=1&b=2&c=3'') (JObj [(''a'', JStr ''1'')]))
        ((default_config
          (stand_in None True (JBool True) (Inr ''a=1&b=2&c=3'') (JObj [(''a'', JStr ''1'')])))
        \<lparr>parameterLimit := JNum (Finite 2),
         queryparse := extended_queryparse
           (stand_in None True (JBool True) (Inr ''a=1&b=2&c=3'') (JObj [(''a'', JStr ''1'')]))
           (JNum (Finite 2))\<rparr>)
        form_request
     = (form_request\<lparr>req_body := JObj []\<rparr>,
        [ContentTypeParse, HasBody, ShouldParse,
         ReaderCall \<lparr>encoding = ''utf-8'', reader_inflate = True,
           reader_limit = JNum (Finite 102400), reader_verify = JBool False\<rparr>,
         Next (Some too_many_parameters)])
   \<and> createReader
        (stand_in None True (JBool True)
           (Inl \<lparr>status = 413, message = ''request entity too large'',
                 error_type = ''entity.too.large'', error_charset = None\<rparr>)
           (JObj [(''a'', JStr ''1'')]))
        (default_config
          (stand_in None True (JBool True)
           (Inl \<lparr>status = 413, message = ''request entity too large'',
                 error_type = ''entity.too.large'', error_charset = None\<rparr>)
           (JObj [(''a'', JStr ''1'')])))
        form_request
     = (form_request\<lparr>req_body := JObj []\<rparr>,
        [ContentTypeParse, HasBody, ShouldParse,
         ReaderCall \<lparr>encoding = ''utf-8'', reader_inflate = True,
           reader_limit = JNum (Finite 102400), reader_verify = JBool False\<rparr>,
         Next (Some \<lparr>status = 413, message = ''request entity too large'',
                 error_type = ''entity.too.large'', error_charset = None\<rparr>)])"
proof -
  define E1 where
    "E1 = stand_in None True (JBool True) (Inr ''a=1&b=2&c=3'') (JObj [(''a'', JStr ''1'')])"
  define self1 where "self1 = (default_config E1)
        \<lparr>parameterLimit := JNum (Finite 2),
         queryparse := extended_queryparse E1 (JNum (Finite 2))\<rparr>"
  define oversize where "oversize = \<lparr>status = 413, message = ''request entity too large'',
                 error_type = ''entity.too.large'', error_charset = None\<rparr>"
  define E2 where
    "E2 = stand_in None True (JBool True) (Inl oversize) (JObj [(''a'', JStr ''1'')])"
  have count: "parameterCount ''a=1&b=2&c=3'' (JNum (Finite 2)) = None"
    using parameterCount_at_limit [of 2 "''a=1&b=2&c=3''"] by simp
  have built: "fst (UrlencodedParser E1 (Some (no_options\<lparr>parameterLimit := JNum (Finite 2)\<rparr>)))
      = Inr self1"
    using extendedparser_of_int [of 2 E1 no_options]
    by (simp add: UrlencodedParser_def Let_def js_or_def no_options_def self1_def
        default_config_def E1_def stand_in_def)
  have overflow: "queryparse self1 ''a=1&b=2&c=3'' = (Inl too_many_parameters, [])"
    by (simp add: self1_def extended_queryparse_def count)
  have a: "createReader E1 self1 form_request
     = (form_request\<lparr>req_body := JObj []\<rparr>,
        [ContentTypeParse, HasBody, ShouldParse,
         ReaderCall \<lparr>encoding = ''utf-8'', reader_inflate = True,
           reader_limit = JNum (Finite 102400), reader_verify = JBool False\<rparr>,
         Next (Some too_many_parameters)])
     \<and> fst (createReader E1 self1 form_request) = form_request\<lparr>req_body := JObj []\<rparr>"
    using no_partial_attachment
      [of E1 "Some (no_options\<lparr>parameterLimit := JNum (Finite 2)\<rparr>)" self1
          too_many_parameters form_request "''a=1&b=2&c=3''"]
      built overflow
    by (simp add: self1_def default_config_def E1_def stand_in_def form_request_def
        typeChecker_def js_or_def getCharset_def)
  have b: "createReader E2 (default_config E2) form_request
     = (form_request\<lparr>req_body := JObj []\<rparr>,
        [ContentTypeParse, HasBody, ShouldParse,
         ReaderCall \<lparr>encoding = ''utf-8'', reader_inflate = True,
           reader_limit = JNum (Finite 102400), reader_verify = JBool False\<rparr>,
         Next (Some oversize)])"
    using no_partial_attachment
      [of E2 None "default_config E2" oversize form_request]
    by (simp add: default_config_def E2_def stand_in_def form_request_def
        typeChecker_def js_or_def getCharset_def)
  show ?thesis
    using a b built unfolding E1_def self1_def E2_def oversize_def by simp
qed

end
